theory Spec2Isabelle
  imports Complex_Main
begin

section \<open>Exposure time calculator for HAWK-I (\<^verbatim>\<open>src/etc.py\<close>)\<close>

text \<open>
  The class \<^verbatim>\<open>ETC\<close> computes with astropy quantities: a double-precision float
  together with a unit. A float is modelled as a real number or one of \<^verbatim>\<open>inf\<close>,
  \<^verbatim>\<open>-inf\<close> and \<^verbatim>\<open>nan\<close>: a result beyond the largest double overflows to an
  infinity, and the infinities and \<^verbatim>\<open>nan\<close> propagate as in IEEE arithmetic. Within
  the range of the doubles the arithmetic is exact (rounding, signed zeros and underflow are
  outside the model).
\<close>

subsection \<open>Floats\<close>

datatype npfloat = Finite real | PosInf | NegInf | NaN

definition max_float :: real where
  "max_float = (2 ^ 53 - 1) * 2 ^ 971"

definition fl :: "real \<Rightarrow> npfloat" where
  "fl x = (if x > max_float then PosInf else if x < - max_float then NegInf else Finite x)"

fun np_sign :: "npfloat \<Rightarrow> int" where
  "np_sign (Finite a) = (if a > 0 then 1 else if a < 0 then - 1 else 0)"
| "np_sign PosInf = 1"
| "np_sign NegInf = - 1"
| "np_sign NaN = 0"

definition signed_inf :: "int \<Rightarrow> npfloat" where
  "signed_inf s = (if s > 0 then PosInf else if s < 0 then NegInf else NaN)"

fun np_mul :: "npfloat \<Rightarrow> npfloat \<Rightarrow> npfloat" where
  "np_mul (Finite a) (Finite b) = fl (a * b)"
| "np_mul NaN b = NaN"
| "np_mul a NaN = NaN"
| "np_mul a b = signed_inf (np_sign a * np_sign b)"

fun np_plus :: "npfloat \<Rightarrow> npfloat \<Rightarrow> npfloat" where
  "np_plus (Finite a) (Finite b) = fl (a + b)"
| "np_plus NaN b = NaN"
| "np_plus a NaN = NaN"
| "np_plus PosInf NegInf = NaN"
| "np_plus NegInf PosInf = NaN"
| "np_plus PosInf b = PosInf"
| "np_plus a PosInf = PosInf"
| "np_plus NegInf b = NegInf"
| "np_plus a NegInf = NegInf"

fun np_divide :: "npfloat \<Rightarrow> npfloat \<Rightarrow> npfloat" where
  "np_divide (Finite a) (Finite b) =
     (if b = 0 then signed_inf (np_sign (Finite a)) else fl (a / b))"
| "np_divide NaN b = NaN"
| "np_divide a NaN = NaN"
| "np_divide (Finite a) b = Finite 0"
| "np_divide a (Finite b) = signed_inf (np_sign a * (if b < 0 then - 1 else 1))"
| "np_divide a b = NaN"

fun np_sqrt :: "npfloat \<Rightarrow> npfloat" where
  "np_sqrt (Finite a) = (if a < 0 then NaN else Finite (sqrt a))"
| "np_sqrt PosInf = PosInf"
| "np_sqrt NegInf = NaN"
| "np_sqrt NaN = NaN"

fun np_greater :: "npfloat \<Rightarrow> npfloat \<Rightarrow> bool" where
  "np_greater (Finite a) (Finite b) = (a > b)"
| "np_greater NaN b = False"
| "np_greater a NaN = False"
| "np_greater PosInf b = (b \<noteq> PosInf)"
| "np_greater a NegInf = (a \<noteq> NegInf)"
| "np_greater a b = False"

text \<open>Comparison of a float with a finite number, as in \<^verbatim>\<open>snr_n < snr\<close>.\<close>

fun np_lt :: "npfloat \<Rightarrow> real \<Rightarrow> bool" where
  "np_lt (Finite a) b = (a < b)"
| "np_lt PosInf b = False"
| "np_lt NegInf b = True"
| "np_lt NaN b = False"

fun np_ge :: "npfloat \<Rightarrow> real \<Rightarrow> bool" where
  "np_ge (Finite a) b = (a \<ge> b)"
| "np_ge PosInf b = True"
| "np_ge NegInf b = False"
| "np_ge NaN b = False"

text \<open>
  A Python \<^verbatim>\<open>int\<close> enters numpy's arithmetic as a 64-bit integer, signed or unsigned;
  one that fits neither becomes a Python object, and the in-place product of a float array
  with it raises a \<^verbatim>\<open>TypeError\<close>.
\<close>

definition int_fits :: "int \<Rightarrow> bool" where
  "int_fits n = (- (2 ^ 63) \<le> n \<and> n < 2 ^ 64)"

subsection \<open>Units and quantities\<close>

text \<open>
  A unit is the vector of the exponents of the irreducible units the program mentions:
  photon, electron, pixel, second, metre and radian. A quantity stores its magnitude
  in these base units (so \<^verbatim>\<open>1 * u.hour\<close> has magnitude 3600), which makes two
  quantities convertible into each other exactly when their units are equal.
\<close>

datatype units = Units (e_ph: int) (e_electron: int) (e_pix: int) (e_s: int) (e_m: int) (e_rad: int)

definition dimensionless :: units where
  "dimensionless = Units 0 0 0 0 0 0"

definition u_ph :: units where
  "u_ph = Units 1 0 0 0 0 0"

definition u_electron :: units where
  "u_electron = Units 0 1 0 0 0 0"

definition u_pixel :: units where
  "u_pixel = Units 0 0 1 0 0 0"

definition u_s :: units where
  "u_s = Units 0 0 0 1 0 0"

definition u_m :: units where
  "u_m = Units 0 0 0 0 1 0"

definition u_rad :: units where
  "u_rad = Units 0 0 0 0 0 1"

fun umul :: "units \<Rightarrow> units \<Rightarrow> units" where
  "umul (Units a b c d e f) (Units a' b' c' d' e' f') =
     Units (a + a') (b + b') (c + c') (d + d') (e + e') (f + f')"

fun udiv :: "units \<Rightarrow> units \<Rightarrow> units" where
  "udiv (Units a b c d e f) (Units a' b' c' d' e' f') =
     Units (a - a') (b - b') (c - c') (d - d') (e - e') (f - f')"

text \<open>
  The quantities that are given: the arguments \<^verbatim>\<open>dit\<close> and \<^verbatim>\<open>seeing\<close>, the class
  attributes and the result of the flux service. Their float is a finite number.
\<close>

record quantity =
  val :: real
  unit_of :: units

text \<open>The quantities that are computed: their float may be an infinity or \<^verbatim>\<open>nan\<close>.\<close>

record fquantity =
  fval :: npfloat
  funit :: units

datatype msg_part = Lit string | Str string | StrList "string list" | Num real

text \<open>
  The exceptions the program can raise. \<^verbatim>\<open>ValueError\<close> carries its formatted message
  as the pieces of the f-string. \<^verbatim>\<open>UnitsError\<close> is what the decorator
  \<^verbatim>\<open>u.quantity_input\<close> raises for an argument of the wrong physical type;
  \<^verbatim>\<open>UnitConversionError\<close> is what astropy raises when quantities of inconvertible
  units are compared, added or converted. \<^verbatim>\<open>TypeError\<close> is raised by
  \<^verbatim>\<open>functools.lru_cache\<close> for an argument that cannot be hashed, and by numpy for an
  integer it cannot hold.
\<close>

datatype error = ValueError "msg_part list" | UnitsError | UnitConversionError | TypeError

definition quantity_of :: "real \<Rightarrow> units \<Rightarrow> quantity" where
  "quantity_of x u = \<lparr>val = x, unit_of = u\<rparr>"

definition of_quantity :: "quantity \<Rightarrow> fquantity" where
  "of_quantity q = \<lparr>fval = Finite (val q), funit = unit_of q\<rparr>"

definition qscale :: "quantity \<Rightarrow> int \<Rightarrow> quantity" where
  "qscale a n = \<lparr>val = val a * real_of_int n, unit_of = unit_of a\<rparr>"

definition qge :: "quantity \<Rightarrow> quantity \<Rightarrow> error + bool" where
  "qge a b = (if unit_of a = unit_of b then Inr (val a \<ge> val b) else Inl UnitConversionError)"

definition qle :: "quantity \<Rightarrow> quantity \<Rightarrow> error + bool" where
  "qle a b = (if unit_of a = unit_of b then Inr (val a \<le> val b) else Inl UnitConversionError)"

definition fq_mul :: "fquantity \<Rightarrow> fquantity \<Rightarrow> fquantity" where
  "fq_mul a b = \<lparr>fval = np_mul (fval a) (fval b), funit = umul (funit a) (funit b)\<rparr>"

definition fq_scale :: "fquantity \<Rightarrow> int \<Rightarrow> fquantity" where
  "fq_scale a n = \<lparr>fval = np_mul (fval a) (Finite (real_of_int n)), funit = funit a\<rparr>"

definition fq_add :: "fquantity \<Rightarrow> fquantity \<Rightarrow> error + fquantity" where
  "fq_add a b =
     (if funit a = funit b then Inr \<lparr>fval = np_plus (fval a) (fval b), funit = funit a\<rparr>
      else Inl UnitConversionError)"

definition fq_gt :: "fquantity \<Rightarrow> fquantity \<Rightarrow> error + bool" where
  "fq_gt a b =
     (if funit a = funit b then Inr (np_greater (fval a) (fval b)) else Inl UnitConversionError)"

definition fq_to_value :: "fquantity \<Rightarrow> units \<Rightarrow> error + npfloat" where
  "fq_to_value a u = (if funit a = u then Inr (fval a) else Inl UnitConversionError)"

subsection \<open>The class attributes\<close>

definition instrument :: string where
  "instrument = ''HAWKI''"

definition observatory :: string where
  "observatory = ''Paranal''"

definition bands :: "string list" where
  "bands = [''Ks'', ''Y'', ''J'', ''H'', ''CH4'', ''H2'', ''NB1060'', ''NB1190'', ''NB2090'',
            ''BrGamma'']"

definition readout_noise :: quantity where
  "readout_noise = quantity_of 5 (udiv u_electron u_pixel)"

definition dark_noise :: quantity where
  "dark_noise = quantity_of (1 / 100) (udiv (udiv u_electron u_pixel) u_s)"

definition pixel_scale :: quantity where
  "pixel_scale = quantity_of ((1063 / 10000)\<^sup>2) (udiv dimensionless u_pixel)"

definition telescope_size :: quantity where
  "telescope_size = quantity_of (pi * (8 / 2)\<^sup>2) (umul u_m u_m)"

definition quantum_efficiency :: quantity where
  "quantum_efficiency = quantity_of (8 / 10) (udiv u_electron u_ph)"

definition linearity_limit :: quantity where
  "linearity_limit = quantity_of 100000 (udiv u_electron u_pixel)"

definition saturation_limit_initial :: quantity where
  "saturation_limit_initial = quantity_of 120000 (udiv u_electron u_pixel)"

definition seeing_default :: quantity where
  "seeing_default = quantity_of (pi / 648000) u_rad"

definition airmass_default :: real where
  "airmass_default = 1"

definition moon_illumination_default :: real where
  "moon_illumination_default = 1 / 2"

definition hour :: "real \<Rightarrow> quantity" where
  "hour n = quantity_of (n * 3600) u_s"

subsection \<open>The state\<close>

text \<open>
  The magnitude argument is a float (a Vega magnitude) or a magnitude tagged with a
  photometric system, such as \<^verbatim>\<open>20 * u.ABmag\<close>; the program only passes it on to the flux
  service. It is also part of the key of the cache of \<^verbatim>\<open>photons_in_filter\<close>, and a
  magnitude tagged with a photometric system (an astropy \<^verbatim>\<open>Magnitude\<close>) cannot be hashed.
\<close>

datatype magnitude = PlainMag real | SystemMag real string

fun hashable :: "magnitude \<Rightarrow> bool" where
  "hashable (PlainMag m) = True"
| "hashable (SystemMag m s) = False"

text \<open>
  The external service \<^verbatim>\<open>hmbp.for_flux_in_filter(band, mag, instrument=..., observatory=...)\<close>
  is a parameter of the model: a function of its four arguments that returns a fresh quantity.
\<close>

type_synonym flux_service = "string \<Rightarrow> magnitude \<Rightarrow> string \<Rightarrow> string \<Rightarrow> quantity"

text \<open>
  The instance dictionary of an \<^verbatim>\<open>ETC\<close> object. \<^verbatim>\<open>__init__\<close> stores nothing, and the
  only assignments to \<^verbatim>\<open>self\<close> in the class are the three of
  \<^verbatim>\<open>initialize_observing_conditions\<close>; an attribute that is absent from the instance
  is read from the class.
\<close>

record instance_dict =
  inst_seeing :: "quantity option"
  inst_moon_illumination :: "real option"
  inst_airmass :: "real option"

definition empty_instance :: instance_dict where
  "empty_instance = \<lparr>inst_seeing = None, inst_moon_illumination = None, inst_airmass = None\<rparr>"

type_synonym cache_key = "nat \<times> string \<times> magnitude"

text \<open>
  The state the methods act on:
  \<^item> \<open>saturation_limit\<close>: the quantity object bound to the class attribute
    \<^verbatim>\<open>ETC.saturation_limit\<close>. It is the one class attribute in the state because it is the
    one object a method updates in place: \<^verbatim>\<open>get_snr\<close> binds \<^verbatim>\<open>signal\<close> to this very
    object (\<^verbatim>\<open>signal = self.saturation_limit\<close>) and then runs \<^verbatim>\<open>signal *= ndit\<close>,
    which for an astropy quantity multiplies the object itself. The object is shared by
    all instances.
  \<^item> \<open>instances\<close>: the instance dictionaries, by object identity.
  \<^item> \<open>cache\<close>: the store of \<^verbatim>\<open>functools.lru_cache\<close> around \<^verbatim>\<open>photons_in_filter\<close>,
    most recently used entry first; its key is the argument tuple, which includes
    \<^verbatim>\<open>self\<close>.
  \<^item> \<open>stdout\<close>: the lines printed so far.
\<close>

record etc_state =
  saturation_limit :: fquantity
  instances :: "nat \<Rightarrow> instance_dict"
  cache :: "(cache_key \<times> fquantity) list"
  stdout :: "string list"

definition initial_state :: etc_state where
  "initial_state =
     \<lparr>saturation_limit = of_quantity saturation_limit_initial,
      instances = (\<lambda>_. empty_instance),
      cache = [],
      stdout = []\<rparr>"

definition print :: "etc_state \<Rightarrow> string \<Rightarrow> etc_state" where
  "print w line = w\<lparr>stdout := stdout w @ [line]\<rparr>"

text \<open>The four warnings the program prints.\<close>

definition warning_linearity :: string where
  "warning_linearity = ''WARNING: Signal is above the linearity limit of the detector''"

definition warning_saturation :: string where
  "warning_saturation = ''WARNING: Signal is above the saturation limit of the detector''"

definition warning_1_hour :: string where
  "warning_1_hour = ''WARNING: total exposure time is longer than 1 hour''"

definition warning_3_hours :: string where
  "warning_3_hours =
     ''WARNING: The maximum exposure time of 3 hours was reached. Stopping the calculation.''"

text \<open>Attribute reads: the instance dictionary first, then the class.\<close>

definition seeing :: "etc_state \<Rightarrow> nat \<Rightarrow> quantity" where
  "seeing w self = (case inst_seeing (instances w self) of Some v \<Rightarrow> v | None \<Rightarrow> seeing_default)"

definition moon_illumination :: "etc_state \<Rightarrow> nat \<Rightarrow> real" where
  "moon_illumination w self =
     (case inst_moon_illumination (instances w self) of
        Some v \<Rightarrow> v | None \<Rightarrow> moon_illumination_default)"

definition airmass :: "etc_state \<Rightarrow> nat \<Rightarrow> real" where
  "airmass w self = (case inst_airmass (instances w self) of Some v \<Rightarrow> v | None \<Rightarrow> airmass_default)"

subsection \<open>\<^verbatim>\<open>photons_in_filter\<close>\<close>

text \<open>The body of the method, lines 93 to 103.\<close>

definition photons_in_filter_body :: "flux_service \<Rightarrow> string \<Rightarrow> magnitude \<Rightarrow> error + fquantity" where
  "photons_in_filter_body flux band mag =
     (if band \<notin> set bands then
        Inl (ValueError [Lit ''Unexpected filter name, received '', Str band,
                         Lit '' but expected one of '', StrList bands])
      else
        let photons = of_quantity (flux band mag instrument observatory);
            photons = fq_mul photons (of_quantity telescope_size);
            photons = fq_mul photons (of_quantity pixel_scale)
        in Inr photons)"

text \<open>
  The method as decorated with \<^verbatim>\<open>@lru_cache()\<close> (128 entries). The wrapper first builds
  the key from the arguments and hashes it, which raises a \<^verbatim>\<open>TypeError\<close> for a magnitude
  that cannot be hashed, before the body and for every band. A hit returns the stored
  result and makes its entry the most recent; a miss runs the body, and stores the result
  unless the body raised, dropping the least recently used entry when the cache is full.
\<close>

definition lru_maxsize :: nat where
  "lru_maxsize = 128"

definition photons_in_filter ::
  "flux_service \<Rightarrow> etc_state \<Rightarrow> nat \<Rightarrow> string \<Rightarrow> magnitude \<Rightarrow> etc_state \<times> (error + fquantity)" where
  "photons_in_filter flux w self band mag =
     (if \<not> hashable mag then (w, Inl TypeError)
      else
        let key = (self, band, mag) in
        case map_of (cache w) key of
          Some v \<Rightarrow> (w\<lparr>cache := (key, v) # filter (\<lambda>kv. fst kv \<noteq> key) (cache w)\<rparr>, Inr v)
        | None \<Rightarrow>
            (case photons_in_filter_body flux band mag of
               Inl e \<Rightarrow> (w, Inl e)
             | Inr v \<Rightarrow> (w\<lparr>cache := take lru_maxsize ((key, v) # cache w)\<rparr>, Inr v)))"

subsection \<open>\<^verbatim>\<open>initialize_observing_conditions\<close>\<close>

text \<open>
  The decorator \<^verbatim>\<open>@u.quantity_input(seeing=u.arcsec)\<close> runs first and rejects a
  \<^verbatim>\<open>seeing\<close> that is not an angle. The three assignments write the instance dictionary
  of \<^verbatim>\<open>self\<close>, in the order of the source.
\<close>

definition initialize_observing_conditions ::
  "etc_state \<Rightarrow> nat \<Rightarrow> quantity \<Rightarrow> real \<Rightarrow> real \<Rightarrow> etc_state \<times> (error + unit)" where
  "initialize_observing_conditions w self seeing_arg moon_arg airmass_arg =
     (if unit_of seeing_arg \<noteq> u_rad then (w, Inl UnitsError)
      else if \<not> (0 \<le> moon_arg \<and> moon_arg \<le> 1) then
        (w, Inl (ValueError [Lit ''moon_illumination must be between 0 and 1, but got '',
                             Num moon_arg]))
      else
        let w = w\<lparr>instances := (instances w)
                   (self := (instances w self)\<lparr>inst_moon_illumination := Some moon_arg\<rparr>)\<rparr>;
            w = w\<lparr>instances := (instances w)
                   (self := (instances w self)\<lparr>inst_airmass := Some airmass_arg\<rparr>)\<rparr>;
            w = w\<lparr>instances := (instances w)
                   (self := (instances w self)\<lparr>inst_seeing := Some seeing_arg\<rparr>)\<rparr>
        in (w, Inr ()))"

subsection \<open>\<^verbatim>\<open>get_snr\<close>\<close>

text \<open>
  Lines 158 to 179, after the check of the decorator \<^verbatim>\<open>@u.quantity_input(dit=u.s)\<close>.
  Line 166 binds \<^verbatim>\<open>signal\<close> to the object \<^verbatim>\<open>self.saturation_limit\<close>, so the in-place
  product of line 168 is then a write to that shared object; otherwise \<^verbatim>\<open>signal\<close> is the
  fresh product of line 160 and the write stays local. The in-place product is also where
  an \<^verbatim>\<open>ndit\<close> that numpy cannot hold raises: the products of lines 159 and 160 are not in
  place and do not raise.
\<close>

definition get_snr ::
  "flux_service \<Rightarrow> etc_state \<Rightarrow> nat \<Rightarrow> string \<Rightarrow> magnitude \<Rightarrow> quantity \<Rightarrow> int
     \<Rightarrow> etc_state \<times> (error + npfloat)" where
  "get_snr flux w self band mag dit ndit =
     (if unit_of dit \<noteq> u_s then (w, Inl UnitsError)
      else
        (case photons_in_filter flux w self band mag of
           (w, Inl e) \<Rightarrow> (w, Inl e)
         | (w, Inr photons) \<Rightarrow>
            (let exposure_time = fq_scale (of_quantity dit) ndit;
                 signal = fq_mul (fq_mul photons (of_quantity dit)) (of_quantity quantum_efficiency)
             in
             (case fq_gt signal (of_quantity linearity_limit) of
                Inl e \<Rightarrow> (w, Inl e)
              | Inr above_linearity \<Rightarrow>
                 (let w = (if above_linearity
                           then print w warning_linearity
                           else w)
                  in
                  (case fq_gt signal (saturation_limit w) of
                     Inl e \<Rightarrow> (w, Inl e)
                   | Inr above_saturation \<Rightarrow>
                      (let w = (if above_saturation
                                then print w warning_saturation
                                else w)
                       in
                       (if \<not> int_fits ndit then (w, Inl TypeError)
                        else
                          (let signal = fq_scale (if above_saturation then saturation_limit w
                                                  else signal) ndit;
                               w = (if above_saturation then w\<lparr>saturation_limit := signal\<rparr> else w);
                               readout_noise_n = fq_scale (of_quantity readout_noise) ndit;
                               dark_noise_t = fq_mul (of_quantity dark_noise) exposure_time
                           in
                           (case fq_to_value signal (udiv u_electron u_pixel) of
                              Inl e \<Rightarrow> (w, Inl e)
                            | Inr electrons \<Rightarrow>
                               (let photon_noise = np_sqrt electrons;
                                    photon_noise_unit = udiv u_electron u_pixel
                                in
                                (case fq_add readout_noise_n dark_noise_t of
                                   Inl e \<Rightarrow> (w, Inl e)
                                 | Inr noise \<Rightarrow>
                                    (if funit noise \<noteq> photon_noise_unit
                                     then (w, Inl UnitConversionError)
                                     else
                                       (let noise_val = np_plus (fval noise) photon_noise in
                                        (if udiv (funit signal) (funit noise) \<noteq> dimensionless
                                         then (w, Inl UnitConversionError)
                                         else (w, Inr (np_divide (fval signal) noise_val)))))))))))))))))"

subsection \<open>\<^verbatim>\<open>get_ndit\<close>\<close>

text \<open>
  One pass through the body of the \<^verbatim>\<open>while\<close> loop, lines 212 to 220, on the loop
  variables \<^verbatim>\<open>is_warning\<close> and \<^verbatim>\<open>ndit\<close>: it returns the new state with the new
  values of \<^verbatim>\<open>is_warning\<close>, \<^verbatim>\<open>snr_n\<close> and \<^verbatim>\<open>ndit\<close> and whether the
  \<^verbatim>\<open>break\<close> of line 220 was taken, or the exception that \<^verbatim>\<open>get_snr\<close> or a
  comparison of quantities raised.
\<close>

definition get_ndit_body ::
  "flux_service \<Rightarrow> nat \<Rightarrow> string \<Rightarrow> magnitude \<Rightarrow> quantity \<Rightarrow> etc_state \<Rightarrow> bool \<Rightarrow> int
     \<Rightarrow> etc_state \<times> (error + bool \<times> npfloat \<times> int \<times> bool)" where
  "get_ndit_body flux self band mag dit w is_warning ndit =
     (let ndit = ndit + 1 in
      (case get_snr flux w self band mag dit ndit of
         (w, Inl e) \<Rightarrow> (w, Inl e)
       | (w, Inr snr_n) \<Rightarrow>
           (case qge (qscale dit ndit) (hour 1) of
              Inl e \<Rightarrow> (w, Inl e)
            | Inr over_1h \<Rightarrow>
                (let warn = (over_1h \<and> \<not> is_warning);
                     w = (if warn then print w warning_1_hour else w);
                     is_warning = (if warn then True else is_warning)
                 in
                 (case qge (qscale dit ndit) (hour 3) of
                    Inl e \<Rightarrow> (w, Inl e)
                  | Inr over_3h \<Rightarrow>
                      (if over_3h
                       then (print w warning_3_hours, Inr (is_warning, snr_n, ndit, True))
                       else (w, Inr (is_warning, snr_n, ndit, False))))))))"

text \<open>
  The \<^verbatim>\<open>while\<close> loop of lines 211 to 220. It need not end for every \<^verbatim>\<open>dit\<close>, so it
  is a partial function: \<open>None\<close> stands for a loop that runs forever. An exception leaves
  the loop.
\<close>

partial_function (option) get_ndit_loop ::
  "flux_service \<Rightarrow> nat \<Rightarrow> string \<Rightarrow> real \<Rightarrow> magnitude \<Rightarrow> quantity
     \<Rightarrow> etc_state \<Rightarrow> bool \<Rightarrow> npfloat \<Rightarrow> int \<Rightarrow> (etc_state \<times> (error + int)) option" where
  "get_ndit_loop flux self band snr mag dit w is_warning snr_n ndit =
     (if np_lt snr_n snr then
        (case get_ndit_body flux self band mag dit w is_warning ndit of
           (w, Inl e) \<Rightarrow> Some (w, Inl e)
         | (w, Inr (is_warning, snr_n, ndit, stop)) \<Rightarrow>
             if stop then Some (w, Inr ndit)
             else get_ndit_loop flux self band snr mag dit w is_warning snr_n ndit)
      else Some (w, Inr ndit))"

text \<open>
  The method: the decorator's check of \<^verbatim>\<open>dit\<close>, the check of line 203, then the loop
  from \<^verbatim>\<open>is_warning = False\<close>, \<^verbatim>\<open>snr_n = 0\<close> and \<^verbatim>\<open>ndit = 0\<close>.
\<close>

definition get_ndit ::
  "flux_service \<Rightarrow> etc_state \<Rightarrow> nat \<Rightarrow> string \<Rightarrow> real \<Rightarrow> magnitude \<Rightarrow> quantity
     \<Rightarrow> (etc_state \<times> (error + int)) option" where
  "get_ndit flux w self band snr mag dit =
     (if unit_of dit \<noteq> u_s then Some (w, Inl UnitsError)
      else
        case qle dit (quantity_of 0 u_s) of
          Inl e \<Rightarrow> Some (w, Inl e)
        | Inr not_positive \<Rightarrow>
            if not_positive then Some (w, Inl (ValueError [Lit ''DIT must be positive'']))
            else get_ndit_loop flux self band snr mag dit w False (Finite 0) 0)"

subsection \<open>Well-formed states and inputs\<close>

text \<open>
  The flux service returns a photon flux, photons per second and square metre; the method
  turns it into photons per pixel and second, and \<^verbatim>\<open>get_snr\<close> into electrons per pixel.
\<close>

definition flux_unit :: units where
  "flux_unit = udiv (udiv u_ph u_s) (umul u_m u_m)"

definition photon_rate_unit :: units where
  "photon_rate_unit = udiv (udiv u_ph u_pixel) u_s"

definition electrons_per_pixel :: units where
  "electrons_per_pixel = udiv u_electron u_pixel"

text \<open>
  The cache holds only what the body of \<^verbatim>\<open>photons_in_filter\<close> returned for the key
  (the flux service being a function of its arguments).
\<close>

definition cache_ok :: "flux_service \<Rightarrow> etc_state \<Rightarrow> bool" where
  "cache_ok flux w =
     list_all (\<lambda>kv. photons_in_filter_body flux (fst (snd (fst kv))) (snd (snd (fst kv))) = Inr (snd kv))
       (cache w)"

text \<open>
  The states the theorems on \<^verbatim>\<open>get_snr\<close> start from: the cache is correct, and the stored
  saturation limit is a finite number of electrons per pixel, not below the 120000 of the
  class body and not above \<open>10\<^sup>5\<^sup>0\<close>.
\<close>

definition state_ok :: "flux_service \<Rightarrow> etc_state \<Rightarrow> bool" where
  "state_ok flux w =
     (cache_ok flux w \<and>
      funit (saturation_limit w) = electrons_per_pixel \<and>
      (case fval (saturation_limit w) of
         Finite l \<Rightarrow> val saturation_limit_initial \<le> l \<and> l \<le> 10 ^ 50
       | PosInf \<Rightarrow> False | NegInf \<Rightarrow> False | NaN \<Rightarrow> False))"

text \<open>
  The range of fluxes and integration times the theorems on the value of \<^verbatim>\<open>get_snr\<close>
  are stated for: far inside the doubles, so that no product overflows or underflows.
\<close>

definition in_range :: "real \<Rightarrow> bool" where
  "in_range x = (1 / 10 ^ 50 \<le> x \<and> x \<le> 10 ^ 50)"

text \<open>What \<^verbatim>\<open>get_snr(band, mag, dit, ndit)\<close> returns when called in the state \<open>w\<close>.\<close>

definition snr_value ::
  "flux_service \<Rightarrow> etc_state \<Rightarrow> nat \<Rightarrow> string \<Rightarrow> magnitude \<Rightarrow> quantity \<Rightarrow> int \<Rightarrow> npfloat" where
  "snr_value flux w self band mag dit ndit =
     (case snd (get_snr flux w self band mag dit ndit) of Inl e \<Rightarrow> NaN | Inr v \<Rightarrow> v)"

text \<open>A flux service stubbed so that the photon rate is exactly 1000 photons per pixel and second.\<close>

definition stub_flux :: flux_service where
  "stub_flux band mag inst obs = quantity_of (1000 / (val telescope_size * val pixel_scale)) flux_unit"

text \<open>
  A flux service for a bright target: \<open>10\<^sup>9\<close> photons per second and square metre, which
  saturates the detector in a \<open>dit\<close> of 10 s.
\<close>

definition bright_flux :: flux_service where
  "bright_flux band mag inst obs = quantity_of 1000000000 flux_unit"

text \<open>
  A flux service for a very faint target, stubbed so that the photon rate is exactly
  \<open>10\<^sup>-\<^sup>2\<^sup>9\<^sup>7\<close> photons per pixel and second: with a \<open>dit\<close> of \<open>10\<^sup>3\<^sup>0\<^sup>0\<close> s one exposure
  collects 800 electrons per pixel, below both limits of the detector.
\<close>

definition faint_flux :: flux_service where
  "faint_flux band mag inst obs =
     quantity_of (1 / 10 ^ 297 / (val telescope_size * val pixel_scale)) flux_unit"

section \<open>Properties\<close>

subsection \<open>Floats in range\<close>

lemma max_float_large: "10 ^ 300 \<le> max_float"
  by (simp add: max_float_def)

lemma fl_finite: "\<bar>x\<bar> \<le> 10 ^ 300 \<Longrightarrow> fl x = Finite x"
  using max_float_large by (auto simp: fl_def abs_le_iff)

lemma np_mul_finite:
  assumes "0 \<le> a" "a \<le> A" "0 \<le> b" "b \<le> B" "A * B \<le> 10 ^ 300"
  shows "np_mul (Finite a) (Finite b) = Finite (a * b)"
proof -
  have "a * b \<le> A * B" using assms by (intro mult_mono) simp_all
  moreover have "0 \<le> a * b" using assms by simp
  ultimately have "\<bar>a * b\<bar> \<le> 10 ^ 300" using assms(5) by simp
  then show ?thesis by (simp add: fl_finite)
qed

lemma np_plus_finite:
  assumes "0 \<le> a" "a \<le> A" "0 \<le> b" "b \<le> B" "A + B \<le> 10 ^ 300"
  shows "np_plus (Finite a) (Finite b) = Finite (a + b)"
proof -
  have "\<bar>a + b\<bar> \<le> 10 ^ 300" using assms by simp
  then show ?thesis by (simp add: fl_finite)
qed

lemma np_divide_finite:
  assumes "0 \<le> a" "a \<le> 10 ^ 300" "1 \<le> b"
  shows "np_divide (Finite a) (Finite b) = Finite (a / b)"
proof -
  have "a / b \<le> a / 1" using assms by (intro divide_left_mono) simp_all
  moreover have "0 \<le> a / b" using assms by simp
  ultimately have "\<bar>a / b\<bar> \<le> 10 ^ 300" using assms(2) by simp
  with assms(3) show ?thesis by (simp add: fl_finite)
qed

subsection \<open>The cache is transparent\<close>

lemma cache_ok_map_of:
  "cache_ok flux w \<Longrightarrow> map_of (cache w) (self, band, mag) = Some v \<Longrightarrow>
     photons_in_filter_body flux band mag = Inr v"
  unfolding cache_ok_def list_all_iff
  by (auto dest!: map_of_SomeD)

lemma photons_in_filter_unhashable:
  "\<not> hashable mag \<Longrightarrow> photons_in_filter flux w self band mag = (w, Inl TypeError)"
  by (simp add: photons_in_filter_def)

lemma photons_in_filter_result:
  assumes "cache_ok flux w" and "hashable mag"
  shows "snd (photons_in_filter flux w self band mag) = photons_in_filter_body flux band mag"
proof (cases "map_of (cache w) (self, band, mag)")
  case None
  with assms(2) show ?thesis
    by (simp add: photons_in_filter_def Let_def split: sum.splits)
next
  case (Some v)
  have "photons_in_filter_body flux band mag = Inr v"
    by (rule cache_ok_map_of[OF assms(1) Some])
  with Some assms(2) show ?thesis
    by (simp add: photons_in_filter_def Let_def)
qed

lemma photons_in_filter_state:
  "fst (photons_in_filter flux w self band mag) =
     w\<lparr>cache := cache (fst (photons_in_filter flux w self band mag))\<rparr>"
  by (simp add: photons_in_filter_def Let_def split: option.splits sum.splits)

lemma photons_in_filter_cache_ok:
  assumes "cache_ok flux w"
  shows "cache_ok flux (fst (photons_in_filter flux w self band mag))"
proof (cases "hashable mag")
  case False
  with assms show ?thesis by (simp add: photons_in_filter_def)
next
  case h: True
  show ?thesis
  proof (cases "map_of (cache w) (self, band, mag)")
    case None
    show ?thesis
    proof (cases "photons_in_filter_body flux band mag")
      case (Inl e)
      with None assms h show ?thesis
        by (simp add: photons_in_filter_def Let_def cache_ok_def)
    next
      case (Inr v)
      with None assms h show ?thesis
        by (auto simp: photons_in_filter_def Let_def cache_ok_def list_all_iff dest!: in_set_takeD)
    qed
  next
    case (Some v)
    have "photons_in_filter_body flux band mag = Inr v"
      by (rule cache_ok_map_of[OF assms Some])
    with Some assms h show ?thesis
      by (auto simp: photons_in_filter_def Let_def cache_ok_def list_all_iff)
  qed
qed

lemma photons_in_filter_eq:
  assumes "cache_ok flux w" and "hashable mag"
  shows "photons_in_filter flux w self band mag =
           (fst (photons_in_filter flux w self band mag), photons_in_filter_body flux band mag)"
  using photons_in_filter_result[OF assms, of self band]
  by (simp add: prod_eq_iff)

lemma photons_in_filter_saturation_limit:
  "saturation_limit (fst (photons_in_filter flux w self band mag)) = saturation_limit w"
  by (subst photons_in_filter_state) simp

lemma photons_in_filter_instances:
  "instances (fst (photons_in_filter flux w self band mag)) = instances w"
  by (subst photons_in_filter_state) simp

lemma photons_in_filter_body_valid:
  "band \<in> set bands \<Longrightarrow>
     photons_in_filter_body flux band mag =
       Inr (fq_mul (fq_mul (of_quantity (flux band mag instrument observatory))
                      (of_quantity telescope_size)) (of_quantity pixel_scale))"
  by (simp add: photons_in_filter_body_def Let_def)

subsection \<open>Bounds on the constants\<close>

lemma telescope_size_pos: "0 < val telescope_size"
  by (simp add: telescope_size_def quantity_of_def)

lemma telescope_size_le: "val telescope_size \<le> 64"
  using pi_less_4 by (simp add: telescope_size_def quantity_of_def)

lemma pixel_scale_pos: "0 < val pixel_scale"
  by (simp add: pixel_scale_def quantity_of_def)

lemma pixel_scale_le: "val pixel_scale \<le> 1"
  by (simp add: pixel_scale_def quantity_of_def power2_eq_square)

lemma quantum_efficiency_pos: "0 < val quantum_efficiency"
  by (simp add: quantum_efficiency_def quantity_of_def)

lemma sqrt_bound: "0 \<le> x \<Longrightarrow> x \<le> 10 ^ 70 \<Longrightarrow> sqrt x \<le> 10 ^ 35"
proof -
  assume "0 \<le> x" "x \<le> 10 ^ 70"
  then have "sqrt x \<le> sqrt (10 ^ 70)" by (intro real_sqrt_le_mono)
  also have "sqrt (10 ^ 70) = (10 ^ 35 :: real)" by (rule real_sqrt_unique) simp_all
  finally show ?thesis .
qed

lemma mult_bounds:
  fixes a b :: real
  assumes "0 \<le> a" "a \<le> A" "0 \<le> b" "b \<le> B"
  shows "0 \<le> a * b" and "a * b \<le> A * B"
proof -
  show "0 \<le> a * b" using assms by simp
  have "0 \<le> A" using assms(1,2) by linarith
  then show "a * b \<le> A * B" using assms by (intro mult_mono)
qed

lemma int_bound: "ndit < 2 ^ 64 \<Longrightarrow> real_of_int ndit \<le> 10 ^ 20"
proof -
  assume "ndit < 2 ^ 64"
  then have "ndit \<le> 10 ^ 20" by simp
  then have "real_of_int ndit \<le> real_of_int (10 ^ 20)" by (simp only: of_int_le_iff)
  then show ?thesis by simp
qed

subsection \<open>The value of \<^verbatim>\<open>get_snr\<close>\<close>

lemma get_snr_eval:
  assumes c: "cache_ok flux w"
    and h: "hashable mag"
    and band: "band \<in> set bands"
    and fu: "unit_of (flux band mag instrument observatory) = flux_unit"
    and du: "unit_of dit = u_s"
    and su: "funit (saturation_limit w) = electrons_per_pixel"
    and fits: "int_fits ndit"
  shows "get_snr flux w self band mag dit ndit =
    (let w1 = fst (photons_in_filter flux w self band mag);
         photons = np_mul (np_mul (Finite (val (flux band mag instrument observatory)))
                             (Finite (val telescope_size))) (Finite (val pixel_scale));
         s1 = np_mul (np_mul photons (Finite (val dit))) (Finite (val quantum_efficiency));
         w2 = (if np_greater s1 (Finite (val linearity_limit)) then print w1 warning_linearity else w1);
         sat = np_greater s1 (fval (saturation_limit w));
         w3 = (if sat then print w2 warning_saturation else w2);
         S = np_mul (if sat then fval (saturation_limit w) else s1) (Finite (real_of_int ndit));
         w4 = (if sat then w3\<lparr>saturation_limit := \<lparr>fval = S, funit = electrons_per_pixel\<rparr>\<rparr>
               else w3)
     in (w4, Inr (np_divide S
                    (np_plus
                       (np_plus (np_mul (Finite (val readout_noise)) (Finite (real_of_int ndit)))
                          (np_mul (Finite (val dark_noise))
                             (np_mul (Finite (val dit)) (Finite (real_of_int ndit)))))
                       (np_sqrt S)))))"
proof -
  let ?photons = "fq_mul (fq_mul (of_quantity (flux band mag instrument observatory))
                      (of_quantity telescope_size)) (of_quantity pixel_scale)"
  have e: "photons_in_filter flux w self band mag =
             (fst (photons_in_filter flux w self band mag), Inr ?photons)"
    using photons_in_filter_eq[OF c h, of self band] photons_in_filter_body_valid[OF band]
    by simp
  have s: "saturation_limit (fst (photons_in_filter flux w self band mag)) = saturation_limit w"
    by (rule photons_in_filter_saturation_limit)
  show ?thesis
    unfolding get_snr_def
    apply (subst e)
    apply (simp add: du fu su s fits Let_def fq_gt_def fq_mul_def fq_scale_def fq_add_def
        fq_to_value_def print_def of_quantity_def
        quantum_efficiency_def linearity_limit_def readout_noise_def dark_noise_def
        telescope_size_def pixel_scale_def quantity_of_def flux_unit_def electrons_per_pixel_def
        u_ph_def u_pixel_def u_s_def u_m_def u_electron_def dimensionless_def)
    done
qed

lemma get_snr_real:
  assumes ok: "state_ok flux w"
    and L: "fval (saturation_limit w) = Finite l"
    and h: "hashable mag"
    and band: "band \<in> set bands"
    and fu: "unit_of (flux band mag instrument observatory) = flux_unit"
    and f0: "0 \<le> val (flux band mag instrument observatory)"
    and f1: "val (flux band mag instrument observatory) \<le> 10 ^ 50"
    and du: "unit_of dit = u_s"
    and d0: "0 < val dit"
    and d1: "val dit \<le> 10 ^ 50"
    and n1: "1 \<le> ndit"
    and n2: "ndit < 2 ^ 64"
  defines "s1 \<equiv> val (flux band mag instrument observatory) * val telescope_size * val pixel_scale
                   * val dit * val quantum_efficiency"
  defines "S \<equiv> (if s1 > l then l else s1) * real_of_int ndit"
  shows "get_snr flux w self band mag dit ndit =
    (let w1 = fst (photons_in_filter flux w self band mag);
         w2 = (if s1 > val linearity_limit then print w1 warning_linearity else w1);
         w3 = (if s1 > l then print w2 warning_saturation else w2);
         w4 = (if s1 > l then w3\<lparr>saturation_limit := \<lparr>fval = Finite S, funit = electrons_per_pixel\<rparr>\<rparr>
               else w3)
     in (w4, Inr (Finite (S / (val readout_noise * real_of_int ndit
                                + val dark_noise * (val dit * real_of_int ndit) + sqrt S)))))"
    and "0 \<le> S"
    and "S \<le> 10 ^ 70"
    and "5 * real_of_int ndit \<le> val readout_noise * real_of_int ndit
                                + val dark_noise * (val dit * real_of_int ndit) + sqrt S"
proof -
  define f where "f = val (flux band mag instrument observatory)"
  define ts where "ts = val telescope_size"
  define ps where "ps = val pixel_scale"
  define d where "d = val dit"
  define qe where "qe = val quantum_efficiency"
  define n where "n = real_of_int ndit"
  define c where "c = (if s1 > l then l else s1)"
  note defs = f_def ts_def ps_def d_def qe_def n_def
  have c: "cache_ok flux w" and su: "funit (saturation_limit w) = electrons_per_pixel"
    and l0: "120000 \<le> l" and l1: "l \<le> 10 ^ 50"
    using ok L by (simp_all add: state_ok_def saturation_limit_initial_def quantity_of_def)
  have fits: "int_fits ndit" using n1 n2 by (simp add: int_fits_def)
  have ts: "0 \<le> ts" "ts \<le> 64" using telescope_size_pos telescope_size_le by (simp_all add: ts_def)
  have ps: "0 \<le> ps" "ps \<le> 1" using pixel_scale_pos pixel_scale_le by (simp_all add: ps_def)
  have qe: "0 \<le> qe" "qe \<le> 1" by (simp_all add: qe_def quantum_efficiency_def quantity_of_def)
  have f: "0 \<le> f" "f \<le> 10 ^ 50" using f0 f1 by (simp_all add: f_def)
  have d: "0 \<le> d" "d \<le> 10 ^ 50" "0 < d" using d0 d1 by (simp_all add: d_def)
  have n: "0 \<le> n" "n \<le> 10 ^ 20" "1 \<le> n"
    using n1 int_bound[OF n2] by (simp_all add: n_def)
  note a1 = mult_bounds[OF f ts]
  have e1: "np_mul (Finite f) (Finite ts) = Finite (f * ts)"
    by (rule np_mul_finite[OF f ts]) simp
  note a2 = mult_bounds[OF a1 ps]
  have e2: "np_mul (Finite (f * ts)) (Finite ps) = Finite (f * ts * ps)"
    by (rule np_mul_finite[OF a1 ps]) simp
  note a3 = mult_bounds[OF a2 d(1,2)]
  have e3: "np_mul (Finite (f * ts * ps)) (Finite d) = Finite (f * ts * ps * d)"
    by (rule np_mul_finite[OF a2 d(1,2)]) simp
  note a4 = mult_bounds[OF a3 qe]
  have e4: "np_mul (Finite (f * ts * ps * d)) (Finite qe) = Finite s1"
    unfolding s1_def defs[symmetric] by (rule np_mul_finite[OF a3 qe]) simp
  have s1: "0 \<le> s1" using a4(1) by (simp add: s1_def defs)
  have c0: "0 \<le> c" and c1: "c \<le> 10 ^ 50"
    using s1 l0 l1 by (simp_all add: c_def)
  have e0: "(if l < s1 then Finite l else Finite s1) = Finite c"
    by (simp add: c_def)
  have e5: "np_mul (Finite c) (Finite n) = Finite (c * n)"
    by (rule np_mul_finite[OF c0 c1 n(1,2)]) simp
  have S: "S = c * n" by (simp add: S_def c_def n_def)
  have S0: "0 \<le> c * n" using c0 n(1) by simp
  have S1: "c * n \<le> 10 ^ 70"
    using mult_bounds(2)[OF c0 c1 n(1,2)] by simp
  have e6: "np_mul (Finite 5) (Finite n) = Finite (5 * n)"
    by (rule np_mul_finite[of 5 5 n "10 ^ 20"]) (use n in simp_all)
  note a7 = mult_bounds[OF d(1,2) n(1,2)]
  have e7: "np_mul (Finite d) (Finite n) = Finite (d * n)"
    by (rule np_mul_finite[OF d(1,2) n(1,2)]) simp
  have e8: "np_mul (Finite (1 / 100)) (Finite (d * n)) = Finite (1 / 100 * (d * n))"
    by (rule np_mul_finite[of "1 / 100" 1 "d * n" "10 ^ 50 * 10 ^ 20"]) (use a7 in simp_all)
  have a9: "0 \<le> 5 * n" "5 * n \<le> 10 ^ 21" "0 \<le> 1 / 100 * (d * n)" "1 / 100 * (d * n) \<le> 10 ^ 70"
    using n(1,2) a7 by simp_all
  have e9: "np_plus (Finite (5 * n)) (Finite (1 / 100 * (d * n))) = Finite (5 * n + 1 / 100 * (d * n))"
    by (rule np_plus_finite[OF a9]) simp
  have q: "0 \<le> sqrt (c * n)" "sqrt (c * n) \<le> 10 ^ 35"
    using S0 sqrt_bound[OF S0 S1] by simp_all
  have e10: "np_sqrt (Finite (c * n)) = Finite (sqrt (c * n))"
    using S0 by simp
  have a11: "0 \<le> 5 * n + 1 / 100 * (d * n)" "5 * n + 1 / 100 * (d * n) \<le> 10 ^ 21 + 10 ^ 70"
    using a9 by simp_all
  have e11: "np_plus (Finite (5 * n + 1 / 100 * (d * n))) (Finite (sqrt (c * n)))
               = Finite (5 * n + 1 / 100 * (d * n) + sqrt (c * n))"
    by (rule np_plus_finite[OF a11 q]) simp
  have noise: "5 * n \<le> 5 * n + 1 / 100 * (d * n) + sqrt (c * n)"
    using a9(3) q(1) by linarith
  then have noise1: "1 \<le> 5 * n + 1 / 100 * (d * n) + sqrt (c * n)"
    using n(3) by linarith
  have S300: "c * n \<le> 10 ^ 300" using S1 by simp
  have e12: "np_divide (Finite (c * n)) (Finite (5 * n + 1 / 100 * (d * n) + sqrt (c * n)))
               = Finite (c * n / (5 * n + 1 / 100 * (d * n) + sqrt (c * n)))"
    by (rule np_divide_finite[OF S0 S300 noise1])
  have ro: "val readout_noise = 5" "val dark_noise = 1 / 100" "val linearity_limit = 100000"
    by (simp_all add: readout_noise_def dark_noise_def linearity_limit_def quantity_of_def)
  show "0 \<le> S" using S0 S by simp
  show "S \<le> 10 ^ 70" using S1 S by simp
  show "5 * real_of_int ndit \<le> val readout_noise * real_of_int ndit
                                + val dark_noise * (val dit * real_of_int ndit) + sqrt S"
    using noise unfolding S ro defs .
  show "get_snr flux w self band mag dit ndit =
    (let w1 = fst (photons_in_filter flux w self band mag);
         w2 = (if s1 > val linearity_limit then print w1 warning_linearity else w1);
         w3 = (if s1 > l then print w2 warning_saturation else w2);
         w4 = (if s1 > l then w3\<lparr>saturation_limit := \<lparr>fval = Finite S, funit = electrons_per_pixel\<rparr>\<rparr>
               else w3)
     in (w4, Inr (Finite (S / (val readout_noise * real_of_int ndit
                                + val dark_noise * (val dit * real_of_int ndit) + sqrt S)))))"
    apply (subst get_snr_eval[OF c h band fu du su fits])
    unfolding defs[symmetric] ro L
    apply (simp only: e1 e2 e3 e4 np_greater.simps Let_def)
    apply (simp only: e0 e5 e6 e7 e8 e9 e10 e11 e12 S)
    done
qed

subsection \<open>Monotonicity of the ratio\<close>


lemma ratio_const_strict_mono:
  fixes c x y :: real
  assumes c: "0 \<le> c" and x: "0 < x" and xy: "x < y"
  shows "x / (c + sqrt x) < y / (c + sqrt y)"
proof -
  have y: "0 < y" using x xy by linarith
  have sx: "0 < sqrt x" and sy: "0 < sqrt y" using x y by simp_all
  have sxy: "sqrt x < sqrt y" using xy by simp
  have dx: "0 < c + sqrt x" using c sx by linarith
  have dy: "0 < c + sqrt y" using c sy by linarith
  have xx: "x = sqrt x * sqrt x" using x by simp
  have yy: "y = sqrt y * sqrt y" using y by simp
  have "sqrt x * (sqrt x * sqrt y) < sqrt y * (sqrt x * sqrt y)"
    using sxy sx sy by (intro mult_strict_right_mono) simp_all
  then have "x * sqrt y < y * sqrt x"
    using xx yy by (metis mult.assoc mult.commute)
  moreover have "c * x \<le> c * y"
    using c xy by (intro mult_left_mono) simp_all
  ultimately have "x * (c + sqrt y) < y * (c + sqrt x)"
    by (simp add: algebra_simps)
  then show ?thesis
    using dx dy by (simp add: frac_less_eq field_simps)
qed

subsection \<open>The search loop ends\<close>

lemma three_hours_unit:
  "unit_of dit = u_s \<Longrightarrow> qge (qscale dit n) (hour h) = Inr (h * 3600 \<le> val dit * real_of_int n)"
  by (simp add: qge_def qscale_def hour_def quantity_of_def)

lemma below_ceiling:
  fixes d :: real
  assumes "0 < d" and "d * real_of_int n < 10800"
  shows "n < \<lceil>10800 / d\<rceil>"
proof -
  have "real_of_int n < 10800 / d"
    using assms by (simp add: pos_less_divide_eq mult.commute)
  then show ?thesis by (simp add: less_ceiling_iff)
qed

lemma get_ndit_body_eval:
  assumes du: "unit_of dit = u_s"
  shows "get_ndit_body flux self band mag dit w is_warning ndit =
     (case get_snr flux w self band mag dit (ndit + 1) of
        (w1, Inl e) \<Rightarrow> (w1, Inl e)
      | (w1, Inr v) \<Rightarrow>
         (let warn = (3600 \<le> val dit * real_of_int (ndit + 1) \<and> \<not> is_warning);
              w2 = (if warn then print w1 warning_1_hour else w1);
              stop = (10800 \<le> val dit * real_of_int (ndit + 1))
          in (if stop then print w2 warning_3_hours else w2,
              Inr (if warn then True else is_warning, v, ndit + 1, stop))))"
proof -
  obtain w1 res where g: "get_snr flux w self band mag dit (ndit + 1) = (w1, res)"
    by (cases "get_snr flux w self band mag dit (ndit + 1)")
  show ?thesis
  proof (cases res)
    case (Inl e)
    with g show ?thesis by (simp add: get_ndit_body_def Let_def)
  next
    case (Inr v)
    with g show ?thesis by (simp add: get_ndit_body_def Let_def three_hours_unit[OF du])
  qed
qed

lemma get_ndit_loop_terminates:
  assumes du: "unit_of dit = u_s" and dpos: "0 < val dit"
  shows "val dit * real_of_int ndit < 10800 \<Longrightarrow>
     \<exists>w' r. get_ndit_loop flux self band snr mag dit w is_warning snr_n ndit = Some (w', r) \<and>
            (\<forall>n. r = Inr n \<longrightarrow> ndit \<le> n \<and> n \<le> \<lceil>10800 / val dit\<rceil>)"
proof (induction "nat (\<lceil>10800 / val dit\<rceil> - ndit)" arbitrary: w is_warning snr_n ndit rule: less_induct)
  case less
  have lt: "ndit < \<lceil>10800 / val dit\<rceil>"
    by (rule below_ceiling[OF dpos less.prems])
  show ?case
  proof (cases "np_lt snr_n snr")
    case False
    then have "get_ndit_loop flux self band snr mag dit w is_warning snr_n ndit = Some (w, Inr ndit)"
      by (subst get_ndit_loop.simps) simp
    with lt show ?thesis by simp
  next
    case True
    obtain w1 res where g: "get_snr flux w self band mag dit (ndit + 1) = (w1, res)"
      by (cases "get_snr flux w self band mag dit (ndit + 1)")
    note body = get_ndit_body_eval[OF du, of flux self band mag w is_warning ndit, unfolded g]
    show ?thesis
    proof (cases res)
      case (Inl e)
      with True body
      have "get_ndit_loop flux self band snr mag dit w is_warning snr_n ndit = Some (w1, Inl e)"
        by (subst get_ndit_loop.simps) simp
      then show ?thesis by simp
    next
      case (Inr v)
      let ?warn = "3600 \<le> val dit * real_of_int (ndit + 1) \<and> \<not> is_warning"
      let ?w2 = "if ?warn then print w1 warning_1_hour else w1"
      let ?iw = "if ?warn then True else is_warning"
      show ?thesis
      proof (cases "10800 \<le> val dit * real_of_int (ndit + 1)")
        case over: True
        with True body Inr
        have "get_ndit_loop flux self band snr mag dit w is_warning snr_n ndit =
                Some (print ?w2 warning_3_hours, Inr (ndit + 1))"
          by (subst get_ndit_loop.simps) (simp add: Let_def)
        with lt show ?thesis by simp
      next
        case under: False
        with True body Inr
        have e: "get_ndit_loop flux self band snr mag dit w is_warning snr_n ndit =
                get_ndit_loop flux self band snr mag dit ?w2 ?iw v (ndit + 1)"
          by (subst get_ndit_loop.simps) (simp add: Let_def)
        have m: "nat (\<lceil>10800 / val dit\<rceil> - (ndit + 1)) < nat (\<lceil>10800 / val dit\<rceil> - ndit)"
          using lt by simp
        have p: "val dit * real_of_int (ndit + 1) < 10800"
          using under by simp
        from less.hyps[OF m p, of ?w2 ?iw v]
        obtain w' r where
          "get_ndit_loop flux self band snr mag dit ?w2 ?iw v (ndit + 1) = Some (w', r)"
          "\<forall>n. r = Inr n \<longrightarrow> ndit + 1 \<le> n \<and> n \<le> \<lceil>10800 / val dit\<rceil>"
          by blast
        with e show ?thesis by auto
      qed
    qed
  qed
qed

subsection \<open>Rejected arguments\<close>

lemma photons_in_filter_invalid_band:
  assumes c: "cache_ok flux w" and h: "hashable mag" and b: "band \<notin> set bands"
  shows "photons_in_filter flux w self band mag =
           (w, Inl (ValueError [Lit ''Unexpected filter name, received '', Str band,
                                Lit '' but expected one of '', StrList bands]))"
proof -
  have body: "photons_in_filter_body flux band mag =
                Inl (ValueError [Lit ''Unexpected filter name, received '', Str band,
                                 Lit '' but expected one of '', StrList bands])"
    using b by (simp add: photons_in_filter_body_def)
  have "map_of (cache w) (self, band, mag) = None"
  proof (cases "map_of (cache w) (self, band, mag)")
    case None
    then show ?thesis .
  next
    case (Some v)
    from cache_ok_map_of[OF c Some] body show ?thesis by simp
  qed
  with body h show ?thesis
    by (simp add: photons_in_filter_def Let_def)
qed

lemma instance_dict_overwritten:
  fixes d :: instance_dict
  shows "d\<lparr>inst_moon_illumination := Some a, inst_airmass := Some b, inst_seeing := Some c\<rparr> =
           \<lparr>inst_seeing = Some c, inst_moon_illumination = Some a, inst_airmass = Some b\<rparr>"
  by (cases d) simp

lemma get_ndit_not_positive:
  assumes "unit_of dit = u_s" and "val dit \<le> 0"
  shows "get_ndit flux w self band snr mag dit =
           Some (w, Inl (ValueError [Lit ''DIT must be positive'']))"
  using assms by (simp add: get_ndit_def qle_def quantity_of_def)

subsection \<open>The state after \<^verbatim>\<open>get_snr\<close>\<close>

lemma state_ok_initial: "state_ok flux initial_state"
  by (simp add: state_ok_def cache_ok_def initial_state_def saturation_limit_initial_def
      quantity_of_def of_quantity_def electrons_per_pixel_def)

lemma initial_limit: "fval (saturation_limit initial_state) = Finite 120000"
  by (simp add: initial_state_def saturation_limit_initial_def quantity_of_def of_quantity_def)

lemma stub_flux_rate: "val (stub_flux band mag inst obs) * val telescope_size * val pixel_scale = 1000"
  using telescope_size_pos pixel_scale_pos
  by (simp add: stub_flux_def quantity_of_def)

lemma stub_flux_unit: "unit_of (stub_flux band mag inst obs) = flux_unit"
  by (simp add: stub_flux_def quantity_of_def)

lemma bright_flux_unit: "unit_of (bright_flux band mag inst obs) = flux_unit"
  by (simp add: bright_flux_def quantity_of_def)

lemma bright_flux_signal:
  "1000000000 < val (bright_flux band mag inst obs) * val telescope_size * val pixel_scale
                  * val (quantity_of 10 u_s) * val quantum_efficiency"
proof -
  have "val (bright_flux band mag inst obs) * val telescope_size * val pixel_scale
          * val (quantity_of 10 u_s) * val quantum_efficiency = pi * 1446360320"
    by (simp add: bright_flux_def telescope_size_def pixel_scale_def quantum_efficiency_def
        quantity_of_def power2_eq_square)
  moreover have "2 * 1446360320 \<le> pi * 1446360320"
    using pi_ge_two by simp
  ultimately show ?thesis by simp
qed


lemma bright_flux_bounds:
  "0 \<le> val (bright_flux band mag inst obs)" "val (bright_flux band mag inst obs) \<le> 10 ^ 50"
  by (simp_all add: bright_flux_def quantity_of_def)

lemma get_snr_finite:
  assumes "state_ok flux w"
    and "fval (saturation_limit w) = Finite l"
    and "hashable mag"
    and "band \<in> set bands"
    and "unit_of (flux band mag instrument observatory) = flux_unit"
    and "0 \<le> val (flux band mag instrument observatory)"
    and "val (flux band mag instrument observatory) \<le> 10 ^ 50"
    and "unit_of dit = u_s"
    and "0 < val dit"
    and "val dit \<le> 10 ^ 50"
    and "1 \<le> ndit"
    and "ndit < 2 ^ 64"
  defines "S \<equiv> min (val (flux band mag instrument observatory) * val telescope_size * val pixel_scale
                       * val dit * val quantum_efficiency) l * real_of_int ndit"
  shows "snd (get_snr flux w self band mag dit ndit) =
           Inr (Finite (S / (val readout_noise * real_of_int ndit
                              + val dark_noise * (val dit * real_of_int ndit) + sqrt S)))"
    and "0 \<le> S"
    and "5 * real_of_int ndit \<le> val readout_noise * real_of_int ndit
                              + val dark_noise * (val dit * real_of_int ndit) + sqrt S"
proof -
  let ?s1 = "val (flux band mag instrument observatory) * val telescope_size * val pixel_scale
               * val dit * val quantum_efficiency"
  have S: "S = (if ?s1 > l then l else ?s1) * real_of_int ndit"
    by (simp add: S_def min_def)
  note r = get_snr_real[OF assms(1-12), folded S]
  show "snd (get_snr flux w self band mag dit ndit) =
           Inr (Finite (S / (val readout_noise * real_of_int ndit
                              + val dark_noise * (val dit * real_of_int ndit) + sqrt S)))"
    by (subst r(1)) (simp add: Let_def)
  show "0 \<le> S" by (rule r(2))
  show "5 * real_of_int ndit \<le> val readout_noise * real_of_int ndit
                              + val dark_noise * (val dit * real_of_int ndit) + sqrt S"
    by (rule r(4))
qed

lemma get_snr_saturated:
  assumes ok: "state_ok flux w"
    and L: "fval (saturation_limit w) = Finite l"
    and h: "hashable mag"
    and band: "band \<in> set bands"
    and fu: "unit_of (flux band mag instrument observatory) = flux_unit"
    and f0: "0 \<le> val (flux band mag instrument observatory)"
    and f1: "val (flux band mag instrument observatory) \<le> 10 ^ 50"
    and du: "unit_of dit = u_s"
    and d0: "0 < val dit"
    and d1: "val dit \<le> 10 ^ 50"
    and n1: "1 \<le> ndit"
    and n2: "ndit < 2 ^ 64"
    and sat: "l < val (flux band mag instrument observatory)
                * val telescope_size * val pixel_scale * val dit * val quantum_efficiency"
  shows "snd (get_snr flux w self band mag dit ndit) =
           Inr (Finite (l * real_of_int ndit /
                  (5 * real_of_int ndit + val dit * real_of_int ndit / 100
                     + sqrt (l * real_of_int ndit))))"
    and "saturation_limit (fst (get_snr flux w self band mag dit ndit)) =
           \<lparr>fval = Finite (l * real_of_int ndit), funit = electrons_per_pixel\<rparr>"
    and "cache_ok flux (fst (get_snr flux w self band mag dit ndit))"
proof -
  note r = get_snr_real(1)[OF ok L h band fu f0 f1 du d0 d1 n1 n2, of self]
  show "snd (get_snr flux w self band mag dit ndit) =
           Inr (Finite (l * real_of_int ndit /
                  (5 * real_of_int ndit + val dit * real_of_int ndit / 100
                     + sqrt (l * real_of_int ndit))))"
    using sat by (subst r) (simp add: Let_def readout_noise_def dark_noise_def quantity_of_def)
  show "saturation_limit (fst (get_snr flux w self band mag dit ndit)) =
           \<lparr>fval = Finite (l * real_of_int ndit), funit = electrons_per_pixel\<rparr>"
    using sat by (subst r) (simp add: Let_def)
  have "cache (fst (get_snr flux w self band mag dit ndit)) =
          cache (fst (photons_in_filter flux w self band mag))"
    by (subst r) (simp add: Let_def print_def)
  moreover have "cache_ok flux (fst (photons_in_filter flux w self band mag))"
    using ok by (intro photons_in_filter_cache_ok) (simp add: state_ok_def)
  ultimately show "cache_ok flux (fst (get_snr flux w self band mag dit ndit))"
    by (simp add: cache_ok_def)
qed

lemma get_snr_unsaturated:
  assumes ok: "state_ok flux w"
    and L: "fval (saturation_limit w) = Finite l"
    and h: "hashable mag"
    and band: "band \<in> set bands"
    and fu: "unit_of (flux band mag instrument observatory) = flux_unit"
    and f0: "0 \<le> val (flux band mag instrument observatory)"
    and f1: "val (flux band mag instrument observatory) \<le> 10 ^ 50"
    and du: "unit_of dit = u_s"
    and d0: "0 < val dit"
    and d1: "val dit \<le> 10 ^ 50"
    and n1: "1 \<le> ndit"
    and n2: "ndit < 2 ^ 64"
    and unsat: "val (flux band mag instrument observatory)
                * val telescope_size * val pixel_scale * val dit * val quantum_efficiency \<le> l"
  shows "saturation_limit (fst (get_snr flux w self band mag dit ndit)) = saturation_limit w"
    and "state_ok flux (fst (get_snr flux w self band mag dit ndit))"
proof -
  note r = get_snr_real(1)[OF ok L h band fu f0 f1 du d0 d1 n1 n2, of self]
  show s: "saturation_limit (fst (get_snr flux w self band mag dit ndit)) = saturation_limit w"
    using unsat by (subst r) (simp add: Let_def print_def photons_in_filter_saturation_limit)
  have "cache (fst (get_snr flux w self band mag dit ndit)) =
          cache (fst (photons_in_filter flux w self band mag))"
    by (subst r) (simp add: Let_def print_def)
  moreover have "cache_ok flux (fst (photons_in_filter flux w self band mag))"
    using ok by (intro photons_in_filter_cache_ok) (simp add: state_ok_def)
  ultimately have "cache_ok flux (fst (get_snr flux w self band mag dit ndit))"
    by (simp add: cache_ok_def)
  with ok s show "state_ok flux (fst (get_snr flux w self band mag dit ndit))"
    by (simp add: state_ok_def)
qed

lemma bright_first_call:
  defines "dit \<equiv> quantity_of 10 u_s"
  defines "w1 \<equiv> fst (get_snr bright_flux initial_state 0 ''H2'' (PlainMag (- 10)) dit 2)"
  shows "snd (get_snr bright_flux initial_state 0 ''H2'' (PlainMag (- 10)) dit 2) =
           Inr (Finite (240000 / (10 + 1 / 5 + sqrt 240000)))"
    and "saturation_limit w1 = of_quantity (quantity_of 240000 electrons_per_pixel)"
    and "state_ok bright_flux w1"
proof -
  have ok0: "state_ok bright_flux initial_state" by (rule state_ok_initial)
  have h: "hashable (PlainMag (- 10))" by simp
  have band: "''H2'' \<in> set bands" by (simp add: bands_def)
  have du: "unit_of dit = u_s" and d0: "0 < val dit" and d1: "val dit \<le> 10 ^ 50"
    and dv: "val dit = 10"
    by (simp_all add: dit_def quantity_of_def)
  have two: "(1::int) \<le> 2" "(2::int) < 2 ^ 64" by simp_all
  have sat0: "120000 < val (bright_flux ''H2'' (PlainMag (- 10)) instrument observatory)
              * val telescope_size * val pixel_scale * val dit * val quantum_efficiency"
    using bright_flux_signal[of "''H2''" "PlainMag (- 10)" instrument observatory]
    unfolding dit_def by linarith
  note first = get_snr_saturated[OF ok0 initial_limit h band bright_flux_unit bright_flux_bounds
      du d0 d1 two sat0, where self = 0, folded w1_def]
  show "snd (get_snr bright_flux initial_state 0 ''H2'' (PlainMag (- 10)) dit 2) =
           Inr (Finite (240000 / (10 + 1 / 5 + sqrt 240000)))"
    using first(1) by (simp add: dv)
  show s1: "saturation_limit w1 = of_quantity (quantity_of 240000 electrons_per_pixel)"
    using first(2) by (simp add: of_quantity_def quantity_of_def)
  show "state_ok bright_flux w1"
    using first(3) s1
    by (simp add: state_ok_def of_quantity_def quantity_of_def saturation_limit_initial_def)
qed

lemma bright_second_call:
  assumes n: "1 \<le> n2" "n2 < 2 ^ 64"
  shows "snd (get_snr bright_flux
                (fst (get_snr bright_flux initial_state 0 ''H2'' (PlainMag (- 10)) (quantity_of 10 u_s) 2))
                self2 ''H2'' (PlainMag (- 10)) (quantity_of 10 u_s) n2) =
           Inr (Finite (240000 * real_of_int n2 /
                  (5 * real_of_int n2 + 10 * real_of_int n2 / 100 + sqrt (240000 * real_of_int n2))))"
proof -
  let ?dit = "quantity_of 10 u_s"
  let ?w1 = "fst (get_snr bright_flux initial_state 0 ''H2'' (PlainMag (- 10)) ?dit 2)"
  have h: "hashable (PlainMag (- 10))" by simp
  have band: "''H2'' \<in> set bands" by (simp add: bands_def)
  have du: "unit_of ?dit = u_s" and d0: "0 < val ?dit" and d1: "val ?dit \<le> 10 ^ 50"
    and dv: "val ?dit = 10"
    by (simp_all add: quantity_of_def)
  have L1: "fval (saturation_limit ?w1) = Finite 240000"
    unfolding bright_first_call(2) by (simp add: of_quantity_def quantity_of_def)
  have sat1: "240000 < val (bright_flux ''H2'' (PlainMag (- 10)) instrument observatory)
              * val telescope_size * val pixel_scale * val ?dit * val quantum_efficiency"
    using bright_flux_signal[of "''H2''" "PlainMag (- 10)" instrument observatory]
    by linarith
  show ?thesis
    using get_snr_saturated(1)[OF bright_first_call(3) L1 h band bright_flux_unit bright_flux_bounds
      du d0 d1 n sat1, where self = self2]
    by (simp add: dv)
qed

subsection \<open>Arguments that \<^verbatim>\<open>get_snr\<close> rejects, and the stubbed flux\<close>

lemma get_snr_unhashable:
  assumes "unit_of dit = u_s" and "\<not> hashable mag"
  shows "get_snr flux w self band mag dit ndit = (w, Inl TypeError)"
  using assms by (simp add: get_snr_def photons_in_filter_def)

lemma get_snr_not_int_fits:
  assumes c: "cache_ok flux w"
    and h: "hashable mag"
    and band: "band \<in> set bands"
    and fu: "unit_of (flux band mag instrument observatory) = flux_unit"
    and du: "unit_of dit = u_s"
    and su: "funit (saturation_limit w) = electrons_per_pixel"
    and fits: "\<not> int_fits ndit"
  shows "snd (get_snr flux w self band mag dit ndit) = Inl TypeError"
proof -
  let ?photons = "fq_mul (fq_mul (of_quantity (flux band mag instrument observatory))
                      (of_quantity telescope_size)) (of_quantity pixel_scale)"
  have e: "photons_in_filter flux w self band mag =
             (fst (photons_in_filter flux w self band mag), Inr ?photons)"
    using photons_in_filter_eq[OF c h, of self band] photons_in_filter_body_valid[OF band]
    by simp
  have s: "saturation_limit (fst (photons_in_filter flux w self band mag)) = saturation_limit w"
    by (rule photons_in_filter_saturation_limit)
  show ?thesis
    unfolding get_snr_def
    apply (subst e)
    apply (simp add: du fu su s fits Let_def fq_gt_def fq_mul_def fq_scale_def
        print_def of_quantity_def
        quantum_efficiency_def linearity_limit_def
        telescope_size_def pixel_scale_def quantity_of_def flux_unit_def electrons_per_pixel_def
        u_ph_def u_pixel_def u_s_def u_m_def u_electron_def dimensionless_def)
    done
qed

lemma stub_flux_in_range: "in_range (val (stub_flux band mag inst obs))"
proof -
  have p: "0 < val telescope_size * val pixel_scale"
    using telescope_size_pos pixel_scale_pos by simp
  have u: "val telescope_size * val pixel_scale \<le> 64 * 1"
    using telescope_size_le pixel_scale_le telescope_size_pos pixel_scale_pos
    by (intro mult_mono) simp_all
  have l: "1 / 10 \<le> val telescope_size * val pixel_scale"
  proof -
    have "2 * 16 \<le> val telescope_size"
      using pi_ge_two by (simp add: telescope_size_def quantity_of_def)
    moreover have "1 / 100 \<le> val pixel_scale"
      by (simp add: pixel_scale_def quantity_of_def power2_eq_square)
    ultimately have "32 * (1 / 100) \<le> val telescope_size * val pixel_scale"
      by (intro mult_mono) simp_all
    then show ?thesis by simp
  qed
  have v: "val (stub_flux band mag inst obs) = 1000 / (val telescope_size * val pixel_scale)"
    by (simp add: stub_flux_def quantity_of_def)
  have "1000 / (val telescope_size * val pixel_scale) \<le> 1000 / (1 / 10)"
    using l by (intro divide_left_mono) simp_all
  then have hi: "1000 / (val telescope_size * val pixel_scale) \<le> 10 ^ 50" by simp
  have "1000 / 64 \<le> 1000 / (val telescope_size * val pixel_scale)"
    using u p by (intro divide_left_mono) simp_all
  then have lo: "1 / 10 ^ 50 \<le> 1000 / (val telescope_size * val pixel_scale)" by simp
  from lo hi show ?thesis unfolding in_range_def v by simp
qed

lemma in_range_bounds:
  assumes "in_range x"
  shows "0 < x" and "0 \<le> x" and "x \<le> 10 ^ 50"
proof -
  have "(0::real) < 1 / 10 ^ 50" by simp
  with assms show "0 < x" unfolding in_range_def by linarith
  then show "0 \<le> x" by simp
  from assms show "x \<le> 10 ^ 50" by (simp add: in_range_def)
qed

lemma stub_snr_above_7: "7 \<le> 8000 / (5 + 1 / 10 + sqrt 8000)"
proof -
  have "sqrt 8000 \<le> sqrt 8100" by (simp only: real_sqrt_le_iff)
  also have "sqrt 8100 = 90" by (rule real_sqrt_unique) simp_all
  finally have "5 + 1 / 10 + sqrt 8000 \<le> 951 / 10" by simp
  moreover have "0 < 5 + 1 / 10 + sqrt 8000" by (simp add: add_pos_nonneg)
  ultimately show ?thesis by (simp add: pos_le_divide_eq)
qed

subsection \<open>Overflow\<close>

lemma max_float_small: "max_float < 10 ^ 309"
  by (simp add: max_float_def)

lemma fl_overflow: "10 ^ 309 \<le> x \<Longrightarrow> fl x = PosInf"
  using max_float_small by (simp add: fl_def)

lemma fl_nonneg_finite: "0 \<le> x \<Longrightarrow> x \<le> 10 ^ 300 \<Longrightarrow> fl x = Finite x"
  by (rule fl_finite) simp

lemma area_scale_bounds:
  "0 < val telescope_size * val pixel_scale"
  "1 / 10 \<le> val telescope_size * val pixel_scale"
  "val telescope_size * val pixel_scale \<le> 64"
proof -
  show "0 < val telescope_size * val pixel_scale"
    using telescope_size_pos pixel_scale_pos by simp
  have "2 * 16 \<le> val telescope_size"
    using pi_ge_two by (simp add: telescope_size_def quantity_of_def)
  moreover have "1 / 100 \<le> val pixel_scale"
    by (simp add: pixel_scale_def quantity_of_def power2_eq_square)
  ultimately have "32 * (1 / 100) \<le> val telescope_size * val pixel_scale"
    by (intro mult_mono) simp_all
  then show "1 / 10 \<le> val telescope_size * val pixel_scale" by simp
  have "val telescope_size * val pixel_scale \<le> 64 * 1"
    using telescope_size_le pixel_scale_le telescope_size_pos pixel_scale_pos
    by (intro mult_mono) simp_all
  then show "val telescope_size * val pixel_scale \<le> 64" by simp
qed

lemma small_over_area:
  fixes e :: real
  assumes "0 \<le> e" and "e \<le> 1 / 10"
  shows "e / (val telescope_size * val pixel_scale) \<le> 1"
proof -
  have "e / (val telescope_size * val pixel_scale) \<le> e / (1 / 10)"
    using area_scale_bounds(2) assms(1) by (intro divide_left_mono) simp_all
  also have "\<dots> \<le> 1" using assms(2) by simp
  finally show ?thesis .
qed

lemma over_area_cancel:
  fixes e :: real
  shows "e / (val telescope_size * val pixel_scale) * val telescope_size * val pixel_scale = e"
  using telescope_size_pos pixel_scale_pos by simp

lemma faint_flux_unit: "unit_of (faint_flux band mag inst obs) = flux_unit"
  by (simp add: faint_flux_def quantity_of_def)

lemma faint_flux_photons:
  "np_mul (np_mul (Finite (val (faint_flux band mag inst obs))) (Finite (val telescope_size)))
     (Finite (val pixel_scale)) = Finite (1 / 10 ^ 297)"
proof -
  let ?f = "val (faint_flux band mag inst obs)"
  have v: "?f = 1 / 10 ^ 297 / (val telescope_size * val pixel_scale)"
    by (simp add: faint_flux_def quantity_of_def)
  have f0: "0 \<le> ?f" using area_scale_bounds(1) by (simp add: v)
  have f1: "?f \<le> 1" unfolding v by (rule small_over_area) simp_all
  have a: "np_mul (Finite ?f) (Finite (val telescope_size)) = Finite (?f * val telescope_size)"
    using telescope_size_pos telescope_size_le
    by (intro np_mul_finite[OF f0 f1, where B = 64]) simp_all
  have ft0: "0 \<le> ?f * val telescope_size" using f0 telescope_size_pos by simp
  have "?f * val telescope_size \<le> 1 * 64"
    using f0 f1 telescope_size_pos telescope_size_le by (intro mult_mono) simp_all
  then have ft1: "?f * val telescope_size \<le> 64" by simp
  have b: "np_mul (Finite (?f * val telescope_size)) (Finite (val pixel_scale)) =
             Finite (?f * val telescope_size * val pixel_scale)"
    using pixel_scale_pos pixel_scale_le
    by (intro np_mul_finite[OF ft0 ft1, where B = 1]) simp_all
  have p: "?f * val telescope_size * val pixel_scale = 1 / 10 ^ 297"
    unfolding v by (rule over_area_cancel)
  show ?thesis by (simp only: a b p)
qed

lemma faint_signal:
  assumes "0 \<le> n" and "n < 2 ^ 64"
  shows "np_mul (np_mul (Finite (1 / 10 ^ 297)) (Finite (10 ^ 300))) (Finite (val quantum_efficiency))
           = Finite 800"
    and "np_mul (Finite 800) (Finite (real_of_int n)) = Finite (800 * real_of_int n)"
    and "np_mul (Finite (val readout_noise)) (Finite (real_of_int n)) = Finite (5 * real_of_int n)"
proof -
  have n0: "0 \<le> real_of_int n" using assms by simp
  have n1: "real_of_int n \<le> 10 ^ 20" by (rule int_bound[OF assms(2)])
  have "np_mul (Finite (1 / 10 ^ 297)) (Finite (10 ^ 300)) = Finite 1000"
    by (simp add: fl_nonneg_finite)
  moreover have "np_mul (Finite 1000) (Finite (val quantum_efficiency)) = Finite 800"
    by (simp add: fl_nonneg_finite quantum_efficiency_def quantity_of_def)
  ultimately show "np_mul (np_mul (Finite (1 / 10 ^ 297)) (Finite (10 ^ 300)))
                     (Finite (val quantum_efficiency)) = Finite 800"
    by simp
  show "np_mul (Finite 800) (Finite (real_of_int n)) = Finite (800 * real_of_int n)"
    using n0 n1 by (intro np_mul_finite[where A = 800 and B = "10 ^ 20"]) simp_all
  show "np_mul (Finite (val readout_noise)) (Finite (real_of_int n)) = Finite (5 * real_of_int n)"
    using np_mul_finite[where a = 5 and A = 5 and b = "real_of_int n" and B = "10 ^ 20"] n0 n1
    by (simp add: readout_noise_def quantity_of_def)
qed

lemma faint_snr_eval:
  assumes band: "band \<in> set bands" and n0: "0 \<le> n" and n2: "n < 2 ^ 64"
  shows "snd (get_snr faint_flux initial_state self band (PlainMag m) (quantity_of (10 ^ 300) u_s) n) =
     Inr (np_divide (Finite (800 * real_of_int n))
            (np_plus
               (np_plus (Finite (5 * real_of_int n))
                  (np_mul (Finite (1 / 100)) (np_mul (Finite (10 ^ 300)) (Finite (real_of_int n)))))
               (Finite (sqrt (800 * real_of_int n)))))"
proof -
  have c: "cache_ok faint_flux initial_state"
    and su: "funit (saturation_limit initial_state) = electrons_per_pixel"
    using state_ok_initial[of faint_flux] by (simp_all add: state_ok_def)
  have h: "hashable (PlainMag m)" by simp
  have du: "unit_of (quantity_of (10 ^ 300) u_s) = u_s" by (simp add: quantity_of_def)
  have dv: "val (quantity_of (10 ^ 300) u_s) = 10 ^ 300" by (simp add: quantity_of_def)
  have fits: "int_fits n" using n0 n2 by (simp add: int_fits_def)
  have dn: "val dark_noise = 1 / 100" by (simp add: dark_noise_def quantity_of_def)
  have s0: "0 \<le> 800 * real_of_int n" using n0 by simp
  note e = get_snr_eval[OF c h band faint_flux_unit du su fits, of self]
  show ?thesis
    unfolding e Let_def snd_conv faint_flux_photons dv faint_signal(1)[OF n0 n2] initial_limit
    using s0
    by (simp add: faint_signal(2,3)[OF n0 n2] dn del: np_mul.simps)
qed


lemma faint_snr_overflow:
  assumes band: "band \<in> set bands" and n1: "10 ^ 9 \<le> n" and n2: "n < 2 ^ 64"
  shows "snd (get_snr faint_flux initial_state self band (PlainMag m) (quantity_of (10 ^ 300) u_s) n) =
           Inr (Finite 0)"
proof -
  have n0: "0 \<le> n" using n1 by simp
  have "real_of_int (10 ^ 9) \<le> real_of_int n" using n1 by (simp only: of_int_le_iff)
  then have "(10::real) ^ 9 \<le> real_of_int n" by simp
  then have "(10 ^ 300) * (10::real) ^ 9 \<le> 10 ^ 300 * real_of_int n"
    by (intro mult_left_mono) simp_all
  moreover have "(10 ^ 300) * (10::real) ^ 9 = 10 ^ 309"
    by (simp only: power_add[symmetric]) simp
  ultimately have "(10::real) ^ 309 \<le> 10 ^ 300 * real_of_int n" by simp
  then have "fl (10 ^ 300 * real_of_int n) = PosInf" by (rule fl_overflow)
  then have a: "np_mul (Finite (10 ^ 300)) (Finite (real_of_int n)) = PosInf"
    by (simp only: np_mul.simps)
  have b: "np_mul (Finite (1 / 100)) PosInf = PosInf"
    by (simp add: signed_inf_def)
  have c: "np_divide (Finite (800 * real_of_int n))
            (np_plus (np_plus (Finite (5 * real_of_int n)) PosInf)
               (Finite (sqrt (800 * real_of_int n)))) = Finite 0"
    by simp
  show ?thesis
    by (simp only: faint_snr_eval[OF band n0 n2, of self m] a b c)
qed

lemma per_exposure_pos:
  assumes "0 < f" and "0 < d"
  shows "0 < f * val telescope_size * val pixel_scale * d * val quantum_efficiency"
  using assms telescope_size_pos pixel_scale_pos quantum_efficiency_pos
  by (intro mult_pos_pos)

lemma state_ok_limit_pos:
  assumes "state_ok flux w" and "fval (saturation_limit w) = Finite l"
  shows "0 < l"
  using assms by (simp add: state_ok_def saturation_limit_initial_def quantity_of_def)


subsection \<open>The search below saturation\<close>

lemma print_state_ok:
  "state_ok flux (print w s) = state_ok flux w"
  "saturation_limit (print w s) = saturation_limit w"
  by (simp_all add: print_def state_ok_def cache_ok_def)

lemma count_fits:
  fixes d :: real
  assumes "1 / 10 ^ 9 \<le> d" and "d * real_of_int n < 10800"
  shows "n + 1 < 2 ^ 64"
proof -
  have dpos: "0 < d"
  proof -
    have "(0::real) < 1 / 10 ^ 9" by simp
    with assms(1) show ?thesis by linarith
  qed
  have "real_of_int n < 10800 / d"
    using dpos assms(2) by (simp add: pos_less_divide_eq mult.commute)
  also have "10800 / d \<le> 10800 / (1 / 10 ^ 9)"
    using assms(1) by (intro divide_left_mono) simp_all
  also have "\<dots> = real_of_int 10800000000000" by simp
  finally have "n < 10800000000000" by (simp only: of_int_less_iff)
  then show ?thesis by simp
qed

lemma stub_snr_one_exposure:
  "snd (get_snr stub_flux initial_state 0 ''H2'' (PlainMag 20) (quantity_of 10 u_s) 1) =
     Inr (Finite (8000 / (5 + 1 / 10 + sqrt 8000)))"
proof -
  have h3: "hashable (PlainMag 20)" by simp
  have h4: "''H2'' \<in> set bands" by (simp add: bands_def)
  note f = in_range_bounds[OF stub_flux_in_range[of "''H2''" "PlainMag 20" instrument observatory]]
  have d: "unit_of (quantity_of 10 u_s) = u_s" "0 < val (quantity_of 10 u_s)"
    "val (quantity_of 10 u_s) \<le> 10 ^ 50"
    by (simp_all add: quantity_of_def)
  have n: "(1::int) \<le> 1" "(1::int) < 2 ^ 64" by simp_all
  show ?thesis
    using get_snr_finite(1)[OF state_ok_initial[of stub_flux] initial_limit h3 h4 stub_flux_unit
        f(2,3) d n, of 0]
    unfolding stub_flux_rate
    by (simp add: quantity_of_def quantum_efficiency_def readout_noise_def dark_noise_def)
qed

lemma get_ndit_loop_search:
  assumes ok0: "state_ok flux w0"
    and L: "fval (saturation_limit w0) = Finite l"
    and h: "hashable mag"
    and band: "band \<in> set bands"
    and fu: "unit_of (flux band mag instrument observatory) = flux_unit"
    and f0: "0 \<le> val (flux band mag instrument observatory)"
    and f1: "val (flux band mag instrument observatory) \<le> 10 ^ 50"
    and du: "unit_of dit = u_s"
    and dlow: "1 / 10 ^ 9 \<le> val dit"
    and d1: "val dit \<le> 10 ^ 50"
    and unsat: "val (flux band mag instrument observatory)
                * val telescope_size * val pixel_scale * val dit * val quantum_efficiency \<le> l"
  shows "state_ok flux w \<Longrightarrow> saturation_limit w = saturation_limit w0 \<Longrightarrow> 0 \<le> ndit \<Longrightarrow>
     val dit * real_of_int ndit < 10800 \<Longrightarrow> np_lt snr_n snr \<Longrightarrow>
     (\<forall>k. 1 \<le> k \<and> k \<le> ndit \<longrightarrow> np_lt (snr_value flux w0 self band mag dit k) snr) \<Longrightarrow>
     \<exists>n w'. ndit < n \<and>
       get_ndit_loop flux self band snr mag dit w is_warning snr_n ndit = Some (w', Inr n) \<and>
       (\<forall>k. 1 \<le> k \<and> k < n \<longrightarrow>
            np_lt (snr_value flux w0 self band mag dit k) snr \<and> val dit * real_of_int k < 10800) \<and>
       (np_ge (snr_value flux w0 self band mag dit n) snr \<or> 10800 \<le> val dit * real_of_int n)"
proof (induction "nat (\<lceil>10800 / val dit\<rceil> - ndit)" arbitrary: w is_warning snr_n ndit rule: less_induct)
  case less
  have dpos: "0 < val dit"
  proof -
    have "(0::real) < 1 / 10 ^ 9" by simp
    with dlow show ?thesis by linarith
  qed
  note ok = less.prems(1) and same = less.prems(2) and n0 = less.prems(3)
    and below = less.prems(4) and cont = less.prems(5) and before = less.prems(6)
  have lt: "ndit < \<lceil>10800 / val dit\<rceil>"
    by (rule below_ceiling[OF dpos below])
  have n1: "1 \<le> ndit + 1" using n0 by simp
  have n2: "ndit + 1 < 2 ^ 64" by (rule count_fits[OF dlow below])
  have Lw: "fval (saturation_limit w) = Finite l" using same L by simp
  define v where "v = min (val (flux band mag instrument observatory) * val telescope_size
                              * val pixel_scale * val dit * val quantum_efficiency) l
                        * real_of_int (ndit + 1)
                      / (val readout_noise * real_of_int (ndit + 1)
                          + val dark_noise * (val dit * real_of_int (ndit + 1))
                          + sqrt (min (val (flux band mag instrument observatory) * val telescope_size
                                         * val pixel_scale * val dit * val quantum_efficiency) l
                                    * real_of_int (ndit + 1)))"
  have r: "snd (get_snr flux w self band mag dit (ndit + 1)) = Inr (Finite v)"
    unfolding v_def
    by (rule get_snr_finite(1)[OF ok Lw h band fu f0 f1 du dpos d1 n1 n2])
  have r0: "snd (get_snr flux w0 self band mag dit (ndit + 1)) = Inr (Finite v)"
    unfolding v_def
    by (rule get_snr_finite(1)[OF ok0 L h band fu f0 f1 du dpos d1 n1 n2])
  have sv: "snr_value flux w0 self band mag dit (ndit + 1) = Finite v"
    by (simp add: snr_value_def r0)
  define w1 where "w1 = fst (get_snr flux w self band mag dit (ndit + 1))"
  have g: "get_snr flux w self band mag dit (ndit + 1) = (w1, Inr (Finite v))"
    using r by (simp add: w1_def prod_eq_iff)
  have ok1: "state_ok flux w1"
    unfolding w1_def
    by (rule get_snr_unsaturated(2)[OF ok Lw h band fu f0 f1 du dpos d1 n1 n2 unsat])
  have same1: "saturation_limit w1 = saturation_limit w0"
    unfolding w1_def
    using get_snr_unsaturated(1)[OF ok Lw h band fu f0 f1 du dpos d1 n1 n2 unsat, of self] same
    by simp
  note body = get_ndit_body_eval[OF du, of flux self band mag w is_warning ndit, unfolded g]
  let ?warn = "3600 \<le> val dit * real_of_int (ndit + 1) \<and> \<not> is_warning"
  let ?w2 = "if ?warn then print w1 warning_1_hour else w1"
  let ?iw = "if ?warn then True else is_warning"
  have earlier: "\<forall>k. 1 \<le> k \<and> k < ndit + 1 \<longrightarrow>
            np_lt (snr_value flux w0 self band mag dit k) snr \<and> val dit * real_of_int k < 10800"
  proof (intro allI impI)
    fix k :: int
    assume k: "1 \<le> k \<and> k < ndit + 1"
    then have "np_lt (snr_value flux w0 self band mag dit k) snr" using before by simp
    moreover have "val dit * real_of_int k \<le> val dit * real_of_int ndit"
      using k dpos by (intro mult_left_mono) simp_all
    ultimately show "np_lt (snr_value flux w0 self band mag dit k) snr \<and>
                     val dit * real_of_int k < 10800"
      using below by simp
  qed
  show ?case
  proof (cases "10800 \<le> val dit * real_of_int (ndit + 1)")
    case over: True
    with cont body
    have "get_ndit_loop flux self band snr mag dit w is_warning snr_n ndit =
            Some (print ?w2 warning_3_hours, Inr (ndit + 1))"
      by (subst get_ndit_loop.simps) (simp add: Let_def)
    with earlier over show ?thesis by force
  next
    case under: False
    with cont body
    have e: "get_ndit_loop flux self band snr mag dit w is_warning snr_n ndit =
            get_ndit_loop flux self band snr mag dit ?w2 ?iw (Finite v) (ndit + 1)"
      by (subst get_ndit_loop.simps) (simp add: Let_def)
    show ?thesis
    proof (cases "np_lt (Finite v) snr")
      case False
      then have "get_ndit_loop flux self band snr mag dit ?w2 ?iw (Finite v) (ndit + 1) =
                   Some (?w2, Inr (ndit + 1))"
        by (subst get_ndit_loop.simps) simp
      moreover have "np_ge (snr_value flux w0 self band mag dit (ndit + 1)) snr"
        using False by (simp add: sv)
      ultimately show ?thesis using e earlier by force
    next
      case True
      have m: "nat (\<lceil>10800 / val dit\<rceil> - (ndit + 1)) < nat (\<lceil>10800 / val dit\<rceil> - ndit)"
        using lt by simp
      have p: "val dit * real_of_int (ndit + 1) < 10800"
        using under by simp
      have ok2: "state_ok flux ?w2" using ok1 by (simp add: print_state_ok)
      have same2: "saturation_limit ?w2 = saturation_limit w0"
        using same1 by (simp add: print_state_ok)
      have n0': "0 \<le> ndit + 1" using n0 by simp
      have before': "\<forall>k. 1 \<le> k \<and> k \<le> ndit + 1 \<longrightarrow>
                       np_lt (snr_value flux w0 self band mag dit k) snr"
      proof (intro allI impI)
        fix k :: int
        assume k: "1 \<le> k \<and> k \<le> ndit + 1"
        show "np_lt (snr_value flux w0 self band mag dit k) snr"
        proof (cases "k = ndit + 1")
          case True
          with \<open>np_lt (Finite v) snr\<close> sv show ?thesis by simp
        next
          case False
          with k have "1 \<le> k \<and> k \<le> ndit" by simp
          with before show ?thesis by simp
        qed
      qed
      from less.hyps[OF m ok2 same2 n0' p True before', of ?iw]
      obtain n w' where
        "ndit + 1 < n"
        "get_ndit_loop flux self band snr mag dit ?w2 ?iw (Finite v) (ndit + 1) = Some (w', Inr n)"
        "\<forall>k. 1 \<le> k \<and> k < n \<longrightarrow>
            np_lt (snr_value flux w0 self band mag dit k) snr \<and> val dit * real_of_int k < 10800"
        "np_ge (snr_value flux w0 self band mag dit n) snr \<or> 10800 \<le> val dit * real_of_int n"
        by blast
      with e show ?thesis
        by (intro exI[of _ n] exI[of _ w']) simp
    qed
  qed
qed

subsection \<open>What the methods do not read or write\<close>

text \<open>
  Neither \<^verbatim>\<open>photons_in_filter\<close> nor \<^verbatim>\<open>get_snr\<close> reads or writes the instance
  dictionaries, where the observing conditions are; and for a magnitude given as a float
  \<^verbatim>\<open>photons_in_filter\<close> raises exactly for a band that is not supported.
\<close>

lemma photons_in_filter_ignores_conditions:
  "photons_in_filter flux (w\<lparr>instances := i\<rparr>) self band mag =
     (fst (photons_in_filter flux w self band mag)\<lparr>instances := i\<rparr>,
      snd (photons_in_filter flux w self band mag))"
  by (simp add: photons_in_filter_def Let_def split: option.splits sum.splits)

lemma get_snr_ignores_conditions:
  "get_snr flux (w\<lparr>instances := i\<rparr>) self band mag dit ndit =
     (fst (get_snr flux w self band mag dit ndit)\<lparr>instances := i\<rparr>,
      snd (get_snr flux w self band mag dit ndit))"
proof -
  obtain w1 r where p: "photons_in_filter flux w self band mag = (w1, r)"
    by (cases "photons_in_filter flux w self band mag")
  then have q: "photons_in_filter flux (w\<lparr>instances := i\<rparr>) self band mag = (w1\<lparr>instances := i\<rparr>, r)"
    by (simp add: photons_in_filter_ignores_conditions)
  show ?thesis
    by (simp add: get_snr_def p q Let_def print_def split: sum.splits)
qed

lemma get_snr_instances:
  "instances (fst (get_snr flux w self band mag dit ndit)) = instances w"
proof -
  obtain w1 r where p: "photons_in_filter flux w self band mag = (w1, r)"
    by (cases "photons_in_filter flux w self band mag")
  have i: "instances w1 = instances w"
    using photons_in_filter_instances[of flux w self band mag] p by simp
  show ?thesis
    by (simp add: get_snr_def p i Let_def print_def split: sum.splits)
qed

lemma photons_in_filter_float_magnitude:
  assumes "cache_ok flux w" and "hashable mag"
  shows "(isl (snd (photons_in_filter flux w self band mag)) \<longleftrightarrow> band \<notin> set bands) \<and>
         (band \<notin> set bands \<longrightarrow>
            photons_in_filter flux w self band mag =
              (w, Inl (ValueError [Lit ''Unexpected filter name, received '', Str band,
                                   Lit '' but expected one of '', StrList bands]))) \<and>
         (band \<in> set bands \<longrightarrow>
            snd (photons_in_filter flux w self band mag) =
              Inr (fq_mul (fq_mul (of_quantity (flux band mag instrument observatory))
                             (of_quantity telescope_size)) (of_quantity pixel_scale)))"
proof -
  have inv: "band \<notin> set bands \<Longrightarrow>
            photons_in_filter flux w self band mag =
              (w, Inl (ValueError [Lit ''Unexpected filter name, received '', Str band,
                                   Lit '' but expected one of '', StrList bands]))"
    by (rule photons_in_filter_invalid_band[OF assms])
  have val: "band \<in> set bands \<Longrightarrow> snd (photons_in_filter flux w self band mag) =
              Inr (fq_mul (fq_mul (of_quantity (flux band mag instrument observatory))
                             (of_quantity telescope_size)) (of_quantity pixel_scale))"
    using photons_in_filter_result[OF assms, of self band]
    by (simp add: photons_in_filter_body_valid)
  have isl: "isl (snd (photons_in_filter flux w self band mag)) \<longleftrightarrow> band \<notin> set bands"
    using inv val by (cases "band \<in> set bands") simp_all
  from isl inv val show ?thesis by blast
qed

subsection \<open>The search for a target that saturates the detector\<close>

text \<open>
  For a target that saturates the detector every step of the search multiplies the stored
  saturation limit by its count, so the ratios the loop compares are not the ones a call of
  \<^verbatim>\<open>get_snr\<close> returns in the state where \<^verbatim>\<open>get_ndit\<close> was called: on a fresh
  calculator a target ratio of 600 at a \<open>dit\<close> of 10 s is declared reached with 3
  exposures, where \<^verbatim>\<open>get_snr\<close> gives 585 for 3 exposures.
\<close>

lemma bright_step:
  assumes ok: "state_ok bright_flux w"
    and L: "fval (saturation_limit w) = Finite l"
    and l: "l \<le> 240000"
    and n: "1 \<le> n" "n \<le> 3"
  defines "w' \<equiv> fst (get_snr bright_flux w 0 ''H2'' (PlainMag (- 10)) (quantity_of 10 u_s) n)"
  shows "get_snr bright_flux w 0 ''H2'' (PlainMag (- 10)) (quantity_of 10 u_s) n =
           (w', Inr (Finite (l * real_of_int n /
                       (5 * real_of_int n + 10 * real_of_int n / 100 + sqrt (l * real_of_int n)))))"
    and "state_ok bright_flux w'"
    and "fval (saturation_limit w') = Finite (l * real_of_int n)"
proof -
  let ?dit = "quantity_of 10 u_s"
  have h: "hashable (PlainMag (- 10))" by simp
  have band: "''H2'' \<in> set bands" by (simp add: bands_def)
  have du: "unit_of ?dit = u_s" and d0: "0 < val ?dit" and d1: "val ?dit \<le> 10 ^ 50"
    and dv: "val ?dit = 10"
    by (simp_all add: quantity_of_def)
  have n2: "n < 2 ^ 64" using n(2) by simp
  have l0: "120000 \<le> l"
    using ok L by (simp add: state_ok_def saturation_limit_initial_def quantity_of_def)
  have sat: "l < val (bright_flux ''H2'' (PlainMag (- 10)) instrument observatory)
              * val telescope_size * val pixel_scale * val ?dit * val quantum_efficiency"
    using bright_flux_signal[of "''H2''" "PlainMag (- 10)" instrument observatory] l
    by linarith
  note s = get_snr_saturated[OF ok L h band bright_flux_unit bright_flux_bounds
      du d0 d1 n(1) n2 sat, where self = 0, folded w'_def]
  show "get_snr bright_flux w 0 ''H2'' (PlainMag (- 10)) ?dit n =
           (w', Inr (Finite (l * real_of_int n /
                       (5 * real_of_int n + 10 * real_of_int n / 100 + sqrt (l * real_of_int n)))))"
    using s(1) by (simp add: w'_def prod_eq_iff dv)
  show v: "fval (saturation_limit w') = Finite (l * real_of_int n)"
    by (simp add: s(2))
  have n3: "real_of_int n \<le> 3" using n(2) by simp
  have n1: "1 \<le> real_of_int n" using n(1) by simp
  have "l \<le> l * real_of_int n"
    using mult_left_mono[of 1 "real_of_int n" l] n1 l0 by simp
  then have lo: "120000 \<le> l * real_of_int n" using l0 by linarith
  have "l * real_of_int n \<le> 240000 * 3"
    using l l0 n1 n3 by (intro mult_mono) simp_all
  then have hi: "l * real_of_int n \<le> 10 ^ 50" by simp
  from lo hi show "state_ok bright_flux w'"
    using s(3) by (simp add: state_ok_def s(2) saturation_limit_initial_def quantity_of_def)
qed

lemma bright_ratios:
  "(120000::real) / (5 + 1 / 10 + sqrt 120000) < 600"
  "(240000::real) / (10 + 1 / 5 + sqrt 240000) < 600"
  "600 \<le> (720000::real) / (15 + 3 / 10 + sqrt 720000)"
  "(360000::real) / (15 + 3 / 10 + sqrt 360000) < 600"
proof -
  have a: "346 \<le> sqrt 120000" by (rule real_le_rsqrt) simp
  have b: "489 \<le> sqrt 240000" by (rule real_le_rsqrt) simp
  have c: "sqrt 720000 \<le> 849" by (rule real_le_lsqrt) simp_all
  have d: "sqrt 360000 = 600" by (rule real_sqrt_unique) simp_all
  have "0 < 5 + 1 / 10 + sqrt 120000" using a by linarith
  then show "(120000::real) / (5 + 1 / 10 + sqrt 120000) < 600"
    using a by (simp add: pos_divide_less_eq)
  have "0 < 10 + 1 / 5 + sqrt 240000" using b by linarith
  then show "(240000::real) / (10 + 1 / 5 + sqrt 240000) < 600"
    using b by (simp add: pos_divide_less_eq)
  have "0 < 15 + 3 / 10 + sqrt 720000" by (simp add: add_pos_nonneg)
  then show "600 \<le> (720000::real) / (15 + 3 / 10 + sqrt 720000)"
    using c by (simp add: pos_le_divide_eq)
  show "(360000::real) / (15 + 3 / 10 + sqrt 360000) < 600"
    unfolding d by simp
qed

lemma get_ndit_saturated_target:
  "map_option snd (get_ndit bright_flux initial_state 0 ''H2'' 600 (PlainMag (- 10))
                     (quantity_of 10 u_s)) = Some (Inr 3)"
  "snr_value bright_flux initial_state 0 ''H2'' (PlainMag (- 10)) (quantity_of 10 u_s) 3 =
     Finite (360000 / (15 + 3 / 10 + sqrt 360000))"
  "np_lt (snr_value bright_flux initial_state 0 ''H2'' (PlainMag (- 10)) (quantity_of 10 u_s) 3) 600"
proof -
  let ?dit = "quantity_of 10 u_s"
  let ?m = "PlainMag (- 10)"
  have du: "unit_of ?dit = u_s" and dv: "val ?dit = 10" by (simp_all add: quantity_of_def)
  define w1 where "w1 = fst (get_snr bright_flux initial_state 0 ''H2'' ?m ?dit 1)"
  define w2 where "w2 = fst (get_snr bright_flux w1 0 ''H2'' ?m ?dit 2)"
  define w3 where "w3 = fst (get_snr bright_flux w2 0 ''H2'' ?m ?dit 3)"
  note s1 = bright_step[OF state_ok_initial initial_limit, of 1, folded w1_def, simplified]
  note s2 = bright_step[OF s1(2) s1(3), of 2, folded w2_def, simplified]
  note s3 = bright_step[OF s2(2) s2(3), of 3, folded w3_def, simplified]
  define v1 :: real where "v1 = 120000 / (5 + 1 / 10 + sqrt 120000)"
  define v2 :: real where "v2 = 240000 / (10 + 1 / 5 + sqrt 240000)"
  define v3 :: real where "v3 = 720000 / (15 + 3 / 10 + sqrt 720000)"
  have r1: "v1 < 600" and r2: "v2 < 600" and r3: "\<not> v3 < 600"
    using bright_ratios(1,2,3) by (simp_all add: v1_def v2_def v3_def)
  have b1: "get_ndit_body bright_flux 0 ''H2'' ?m ?dit initial_state False 0 =
              (w1, Inr (False, Finite v1, 1, False))"
    using s1(1) by (simp add: get_ndit_body_eval[OF du] dv Let_def v1_def)
  have b2: "get_ndit_body bright_flux 0 ''H2'' ?m ?dit w1 False 1 =
              (w2, Inr (False, Finite v2, 2, False))"
    using s2(1) by (simp add: get_ndit_body_eval[OF du] dv Let_def v2_def)
  have b3: "get_ndit_body bright_flux 0 ''H2'' ?m ?dit w2 False 2 =
              (w3, Inr (False, Finite v3, 3, False))"
    using s3(1) by (simp add: get_ndit_body_eval[OF du] dv Let_def v3_def)
  have l3: "get_ndit_loop bright_flux 0 ''H2'' 600 ?m ?dit w3 False (Finite v3) 3 =
              Some (w3, Inr 3)"
    using r3 by (subst get_ndit_loop.simps) simp
  have l2: "get_ndit_loop bright_flux 0 ''H2'' 600 ?m ?dit w2 False (Finite v2) 2 =
              Some (w3, Inr 3)"
    using r2 by (subst get_ndit_loop.simps) (simp add: b3 l3)
  have l1: "get_ndit_loop bright_flux 0 ''H2'' 600 ?m ?dit w1 False (Finite v1) 1 =
              Some (w3, Inr 3)"
    using r1 by (subst get_ndit_loop.simps) (simp add: b2 l2)
  have l0: "get_ndit_loop bright_flux 0 ''H2'' 600 ?m ?dit initial_state False (Finite 0) 0 =
              Some (w3, Inr 3)"
    by (subst get_ndit_loop.simps) (simp add: b1 l1)
  show "map_option snd (get_ndit bright_flux initial_state 0 ''H2'' 600 ?m ?dit) = Some (Inr 3)"
    by (simp add: get_ndit_def qle_def quantity_of_def l0[unfolded quantity_of_def])
  have three: "(1::int) \<le> 3" "(3::int) \<le> 3" by simp_all
  have l: "(120000::real) \<le> 240000" by simp
  note c = bright_step(1)[OF state_ok_initial initial_limit l three]
  show v: "snr_value bright_flux initial_state 0 ''H2'' ?m ?dit 3 =
     Finite (360000 / (15 + 3 / 10 + sqrt 360000))"
    unfolding snr_value_def by (subst c) simp
  show "np_lt (snr_value bright_flux initial_state 0 ''H2'' ?m ?dit 3) 600"
    unfolding v using bright_ratios(4) by simp
qed

section \<open>The claims\<close>

subsection \<open>C1: the signal-to-noise formula\<close>

text \<open>
  Claim C1 says that \<^verbatim>\<open>get_snr\<close> returns the ratio for every magnitude and every
  \<open>ndit \<ge> 1\<close>. It raises a \<^verbatim>\<open>TypeError\<close> instead for \<open>ndit = 2\<^sup>6\<^sup>4\<close>, which the in-place
  multiplication \<^verbatim>\<open>signal *= ndit\<close> of line 168 cannot convert, and for a magnitude tagged
  with a photometric system, which the cache of \<^verbatim>\<open>photons_in_filter\<close> cannot hash.
\<close>

theorem get_snr_raises_type_error:
  "snd (get_snr stub_flux initial_state 0 ''H2'' (PlainMag 20) (quantity_of 10 u_s) (2 ^ 64)) =
     Inl TypeError \<and>
   snd (get_snr stub_flux initial_state 0 ''H2'' (SystemMag 20 ''AB'') (quantity_of 10 u_s) 1) =
     Inl TypeError"
proof -
  have c: "cache_ok stub_flux initial_state"
    using state_ok_initial[of stub_flux] by (simp add: state_ok_def)
  have su: "funit (saturation_limit initial_state) = electrons_per_pixel"
    using state_ok_initial[of stub_flux] by (simp add: state_ok_def)
  have a: "snd (get_snr stub_flux initial_state 0 ''H2'' (PlainMag 20) (quantity_of 10 u_s) (2 ^ 64)) =
     Inl TypeError"
    by (rule get_snr_not_int_fits[OF c _ _ stub_flux_unit _ su])
       (simp_all add: bands_def quantity_of_def int_fits_def)
  have b: "snd (get_snr stub_flux initial_state 0 ''H2'' (SystemMag 20 ''AB'') (quantity_of 10 u_s) 1) =
     Inl TypeError"
    by (subst get_snr_unhashable) (simp_all add: quantity_of_def)
  from a b show ?thesis by (rule conjI)
qed

text \<open>
  Claim C1, amended to a magnitude given as a float and an \<open>ndit\<close> that fits a 64-bit
  integer. For a supported band, \<^verbatim>\<open>get_snr\<close> computes in double precision the signal of
  one exposure as photon rate times \<open>dit\<close> times quantum efficiency (replaced by the stored
  saturation limit \<open>l\<close> when it exceeds it, the step of claim C3), multiplies it by
  \<open>ndit\<close>, forms the noise as the plain sum of the readout noise times \<open>ndit\<close>, the dark
  rate times \<open>dit * ndit\<close> and the square root of the signal, and returns the quotient signal
  / noise as a plain number. For a flux and a \<open>dit\<close> between \<open>10\<^sup>-\<^sup>5\<^sup>0\<close> and \<open>10\<^sup>5\<^sup>0\<close> and
  \<open>ndit \<ge> 1\<close> no operation overflows and the result is that quotient of real numbers
  (rounding apart). The witness is the scenario of the specification: a photon rate of
  exactly 1000, a \<open>dit\<close> of 10 s and one exposure give \<open>8000 / (5 + 0.1 + sqrt 8000)\<close>.
\<close>

theorem get_snr_formula:
  assumes "state_ok flux w"
    and "fval (saturation_limit w) = Finite l"
    and "hashable mag"
    and "band \<in> set bands"
    and "unit_of (flux band mag instrument observatory) = flux_unit"
    and "unit_of dit = u_s"
    and "int_fits ndit"
  shows
    "snd (get_snr flux w self band mag dit ndit) =
       (let photons = np_mul (np_mul (Finite (val (flux band mag instrument observatory)))
                                (Finite (val telescope_size))) (Finite (val pixel_scale));
            signal_per_exposure = np_mul (np_mul photons (Finite (val dit)))
                                    (Finite (val quantum_efficiency));
            signal_per_exposure = (if np_greater signal_per_exposure (Finite l) then Finite l
                                   else signal_per_exposure);
            signal = np_mul signal_per_exposure (Finite (real_of_int ndit));
            noise = np_plus
                      (np_plus (np_mul (Finite (val readout_noise)) (Finite (real_of_int ndit)))
                         (np_mul (Finite (val dark_noise))
                            (np_mul (Finite (val dit)) (Finite (real_of_int ndit)))))
                      (np_sqrt signal)
        in Inr (np_divide signal noise)) \<and>
     (in_range (val (flux band mag instrument observatory)) \<and> in_range (val dit) \<and>
      1 \<le> ndit \<longrightarrow>
        snd (get_snr flux w self band mag dit ndit) =
          (let photons = val (flux band mag instrument observatory) * val telescope_size
                           * val pixel_scale;
               signal_per_exposure = photons * val dit * val quantum_efficiency;
               signal_per_exposure = (if signal_per_exposure > l then l else signal_per_exposure);
               signal = signal_per_exposure * real_of_int ndit;
               noise = val readout_noise * real_of_int ndit
                         + val dark_noise * (val dit * real_of_int ndit)
                         + sqrt signal
           in Inr (Finite (signal / noise))))"
proof (intro conjI impI)
  have c: "cache_ok flux w" and su: "funit (saturation_limit w) = electrons_per_pixel"
    using assms(1) by (simp_all add: state_ok_def)
  show "snd (get_snr flux w self band mag dit ndit) =
       (let photons = np_mul (np_mul (Finite (val (flux band mag instrument observatory)))
                                (Finite (val telescope_size))) (Finite (val pixel_scale));
            signal_per_exposure = np_mul (np_mul photons (Finite (val dit)))
                                    (Finite (val quantum_efficiency));
            signal_per_exposure = (if np_greater signal_per_exposure (Finite l) then Finite l
                                   else signal_per_exposure);
            signal = np_mul signal_per_exposure (Finite (real_of_int ndit));
            noise = np_plus
                      (np_plus (np_mul (Finite (val readout_noise)) (Finite (real_of_int ndit)))
                         (np_mul (Finite (val dark_noise))
                            (np_mul (Finite (val dit)) (Finite (real_of_int ndit)))))
                      (np_sqrt signal)
        in Inr (np_divide signal noise))"
    by (subst get_snr_eval[OF c assms(3,4,5,6) su assms(7)]) (simp add: Let_def assms(2))
next
  assume r: "in_range (val (flux band mag instrument observatory)) \<and> in_range (val dit) \<and>
      1 \<le> ndit"
  have n2: "ndit < 2 ^ 64" using assms(7) by (simp add: int_fits_def)
  from r have n1: "1 \<le> ndit" by simp
  note f = in_range_bounds[of "val (flux band mag instrument observatory)"]
  note d = in_range_bounds[of "val dit"]
  show "snd (get_snr flux w self band mag dit ndit) =
          (let photons = val (flux band mag instrument observatory) * val telescope_size
                           * val pixel_scale;
               signal_per_exposure = photons * val dit * val quantum_efficiency;
               signal_per_exposure = (if signal_per_exposure > l then l else signal_per_exposure);
               signal = signal_per_exposure * real_of_int ndit;
               noise = val readout_noise * real_of_int ndit
                         + val dark_noise * (val dit * real_of_int ndit)
                         + sqrt signal
           in Inr (Finite (signal / noise)))"
    using get_snr_finite(1)[OF assms(1,2,3,4,5) f(2) f(3) assms(6) d(1) d(3) n1 n2, of self] r
    by (simp add: Let_def min_def not_less)
qed

theorem get_snr_formula_witness:
  "state_ok stub_flux initial_state \<and> fval (saturation_limit initial_state) = Finite 120000 \<and>
   hashable (PlainMag 20) \<and> ''H2'' \<in> set bands \<and>
   unit_of (stub_flux ''H2'' (PlainMag 20) instrument observatory) = flux_unit \<and>
   unit_of (quantity_of 10 u_s) = u_s \<and> int_fits 1 \<and>
   in_range (val (stub_flux ''H2'' (PlainMag 20) instrument observatory)) \<and>
   in_range (val (quantity_of 10 u_s)) \<and> (1::int) \<le> 1 \<and>
   val (stub_flux ''H2'' (PlainMag 20) instrument observatory) * val telescope_size * val pixel_scale
     = 1000 \<and>
   snd (get_snr stub_flux initial_state 0 ''H2'' (PlainMag 20) (quantity_of 10 u_s) 1) =
     Inr (Finite (8000 / (5 + 1 / 10 + sqrt 8000)))"
proof -
  have h1: "state_ok stub_flux initial_state" by (rule state_ok_initial)
  have h2: "fval (saturation_limit initial_state) = Finite 120000" by (rule initial_limit)
  have h3: "hashable (PlainMag 20)" by simp
  have h4: "''H2'' \<in> set bands" by (simp add: bands_def)
  have h5: "unit_of (stub_flux ''H2'' (PlainMag 20) instrument observatory) = flux_unit"
    by (rule stub_flux_unit)
  have h6: "unit_of (quantity_of 10 u_s) = u_s" by (simp add: quantity_of_def)
  have h7: "int_fits 1" by (simp add: int_fits_def)
  have h8: "in_range (val (stub_flux ''H2'' (PlainMag 20) instrument observatory))"
    by (rule stub_flux_in_range)
  have h9: "in_range (val (quantity_of 10 u_s))" by (simp add: in_range_def quantity_of_def)
  have h10: "(1::int) \<le> 1" by simp
  have "snd (get_snr stub_flux initial_state 0 ''H2'' (PlainMag 20) (quantity_of 10 u_s) 1) =
     Inr (Finite (8000 / (5 + 1 / 10 + sqrt 8000)))"
    using get_snr_formula[OF h1 h2 h3 h4 h5 h6 h7, of 0, THEN conjunct2] h8 h9
    by (simp add: stub_flux_rate Let_def quantity_of_def quantum_efficiency_def
        readout_noise_def dark_noise_def)
  with h1 h2 h3 h4 h5 h6 h7 h8 h9 h10 stub_flux_rate show ?thesis by blast
qed

subsection \<open>C2: the result of the search\<close>

text \<open>
  Claim C2 says that \<^verbatim>\<open>get_ndit\<close> returns a positive number of exposures for every
  target. For a target of 0 the loop condition \<^verbatim>\<open>snr_n < snr\<close> is false at the first
  test, where \<^verbatim>\<open>snr_n\<close> and \<^verbatim>\<open>ndit\<close> are still 0: the body never runs and the method
  returns 0 exposures.
\<close>

theorem get_ndit_target_not_positive:
  "get_ndit stub_flux initial_state 0 ''H2'' 0 (PlainMag 20) (quantity_of 10 u_s)
     = Some (initial_state, Inr 0)"
proof -
  have "get_ndit_loop stub_flux 0 ''H2'' 0 (PlainMag 20) (quantity_of 10 u_s) initial_state False
          (Finite 0) 0 = Some (initial_state, Inr 0)"
    by (subst get_ndit_loop.simps) simp
  then show ?thesis
    by (simp add: get_ndit_def qle_def quantity_of_def)
qed

text \<open>
  Claim C2, amended to targets above 0, a magnitude given as a float, a target that does not
  saturate the detector in one exposure, and a \<open>dit\<close> of at least a nanosecond. Called with
  a \<open>dit\<close> that is not positive, \<^verbatim>\<open>get_ndit\<close> fails with the \<^verbatim>\<open>ValueError\<close>
  \<^verbatim>\<open>DIT must be positive\<close> and leaves the state as it was. Otherwise, for a supported
  band, it returns a number \<open>n \<ge> 1\<close> of exposures that the search reached by steps of one
  from 1: for every count \<open>1 \<le> k < n\<close> the ratio \<^verbatim>\<open>get_snr(band, mag, dit, k)\<close> is
  below the target and \<open>k * dit\<close> below 3 hours, and at \<open>n\<close> the ratio
  \<^verbatim>\<open>get_snr(band, mag, dit, n)\<close> is at least the target or \<open>n * dit\<close> has reached 3 hours.
  The ratios are the ones \<^verbatim>\<open>get_snr\<close> returns in the state \<open>w\<close> in which
  \<^verbatim>\<open>get_ndit\<close> was called. Targets that saturate the detector are left out: there the
  steps of the search rewrite the stored saturation limit (claims C3, C8 and C10), and the
  count returned need not satisfy the claim (\<open>get_ndit_saturated_target\<close>). In the
  witness the target 7 is reached with one exposure.
\<close>

theorem get_ndit_search:
  "(unit_of dit = u_s \<and> val dit \<le> 0 \<longrightarrow>
      get_ndit flux w self band snr mag dit =
        Some (w, Inl (ValueError [Lit ''DIT must be positive'']))) \<and>
   (state_ok flux w \<and> fval (saturation_limit w) = Finite l \<and> hashable mag \<and>
    band \<in> set bands \<and>
    unit_of (flux band mag instrument observatory) = flux_unit \<and>
    0 \<le> val (flux band mag instrument observatory) \<and>
    val (flux band mag instrument observatory) \<le> 10 ^ 50 \<and>
    unit_of dit = u_s \<and> 1 / 10 ^ 9 \<le> val dit \<and> val dit \<le> 10 ^ 50 \<and>
    val (flux band mag instrument observatory) * val telescope_size * val pixel_scale
      * val dit * val quantum_efficiency \<le> l \<and>
    0 < snr \<longrightarrow>
      (\<exists>n w'. 1 \<le> n \<and>
         get_ndit flux w self band snr mag dit = Some (w', Inr n) \<and>
         (\<forall>k. 1 \<le> k \<and> k < n \<longrightarrow>
              np_lt (snr_value flux w self band mag dit k) snr \<and>
              val dit * real_of_int k < 10800) \<and>
         (np_ge (snr_value flux w self band mag dit n) snr \<or>
          10800 \<le> val dit * real_of_int n)))"
proof (intro conjI impI)
  assume "unit_of dit = u_s \<and> val dit \<le> 0"
  then show "get_ndit flux w self band snr mag dit =
               Some (w, Inl (ValueError [Lit ''DIT must be positive'']))"
    by (intro get_ndit_not_positive) simp_all
next
  assume a: "state_ok flux w \<and> fval (saturation_limit w) = Finite l \<and> hashable mag \<and>
    band \<in> set bands \<and>
    unit_of (flux band mag instrument observatory) = flux_unit \<and>
    0 \<le> val (flux band mag instrument observatory) \<and>
    val (flux band mag instrument observatory) \<le> 10 ^ 50 \<and>
    unit_of dit = u_s \<and> 1 / 10 ^ 9 \<le> val dit \<and> val dit \<le> 10 ^ 50 \<and>
    val (flux band mag instrument observatory) * val telescope_size * val pixel_scale
      * val dit * val quantum_efficiency \<le> l \<and>
    0 < snr"
  then have ok: "state_ok flux w" and L: "fval (saturation_limit w) = Finite l"
    and h: "hashable mag" and band: "band \<in> set bands"
    and fu: "unit_of (flux band mag instrument observatory) = flux_unit"
    and f0: "0 \<le> val (flux band mag instrument observatory)"
    and f1: "val (flux band mag instrument observatory) \<le> 10 ^ 50"
    and du: "unit_of dit = u_s" and dlow: "1 / 10 ^ 9 \<le> val dit" and d1: "val dit \<le> 10 ^ 50"
    and unsat: "val (flux band mag instrument observatory) * val telescope_size * val pixel_scale
      * val dit * val quantum_efficiency \<le> l"
    and target: "0 < snr"
    by simp_all
  have dpos: "0 < val dit"
  proof -
    have "(0::real) < 1 / 10 ^ 9" by simp
    with dlow show ?thesis by linarith
  qed
  have start: "val dit * real_of_int 0 < 10800" by simp
  have first: "np_lt (Finite 0) snr" using target by simp
  have none: "\<forall>k. 1 \<le> k \<and> k \<le> (0::int) \<longrightarrow> np_lt (snr_value flux w self band mag dit k) snr"
    by auto
  have z0: "(0::int) \<le> 0" by simp
  from get_ndit_loop_search[where w = w and ndit = 0 and snr_n = "Finite 0" and snr = snr
      and self = self and is_warning = False,
      OF ok L h band fu f0 f1 du dlow d1 unsat ok refl z0 start first none]
  obtain n w' where
    "0 < n"
    "get_ndit_loop flux self band snr mag dit w False (Finite 0) 0 = Some (w', Inr n)"
    "\<forall>k. 1 \<le> k \<and> k < n \<longrightarrow>
        np_lt (snr_value flux w self band mag dit k) snr \<and> val dit * real_of_int k < 10800"
    "np_ge (snr_value flux w self band mag dit n) snr \<or> 10800 \<le> val dit * real_of_int n"
    by auto
  moreover have "get_ndit flux w self band snr mag dit =
                   get_ndit_loop flux self band snr mag dit w False (Finite 0) 0"
    using du dpos by (simp add: get_ndit_def qle_def quantity_of_def)
  ultimately show "\<exists>n w'. 1 \<le> n \<and>
         get_ndit flux w self band snr mag dit = Some (w', Inr n) \<and>
         (\<forall>k. 1 \<le> k \<and> k < n \<longrightarrow>
              np_lt (snr_value flux w self band mag dit k) snr \<and>
              val dit * real_of_int k < 10800) \<and>
         (np_ge (snr_value flux w self band mag dit n) snr \<or>
          10800 \<le> val dit * real_of_int n)"
    by (intro exI[of _ n] exI[of _ w']) simp
qed

theorem get_ndit_search_witness:
  "unit_of (quantity_of 0 u_s) = u_s \<and> val (quantity_of 0 u_s) \<le> 0 \<and>
   state_ok stub_flux initial_state \<and> fval (saturation_limit initial_state) = Finite 120000 \<and>
   hashable (PlainMag 20) \<and> ''H2'' \<in> set bands \<and>
   unit_of (stub_flux ''H2'' (PlainMag 20) instrument observatory) = flux_unit \<and>
   0 \<le> val (stub_flux ''H2'' (PlainMag 20) instrument observatory) \<and>
   val (stub_flux ''H2'' (PlainMag 20) instrument observatory) \<le> 10 ^ 50 \<and>
   unit_of (quantity_of 10 u_s) = u_s \<and> 1 / 10 ^ 9 \<le> val (quantity_of 10 u_s) \<and>
   val (quantity_of 10 u_s) \<le> 10 ^ 50 \<and>
   val (stub_flux ''H2'' (PlainMag 20) instrument observatory) * val telescope_size
     * val pixel_scale * val (quantity_of 10 u_s) * val quantum_efficiency \<le> 120000 \<and>
   (0::real) < 7 \<and>
   get_ndit stub_flux initial_state 0 ''H2'' 7 (PlainMag 20) (quantity_of 0 u_s) =
     Some (initial_state, Inl (ValueError [Lit ''DIT must be positive''])) \<and>
   (\<exists>w'. get_ndit stub_flux initial_state 0 ''H2'' 7 (PlainMag 20) (quantity_of 10 u_s) =
           Some (w', Inr 1)) \<and>
   snr_value stub_flux initial_state 0 ''H2'' (PlainMag 20) (quantity_of 10 u_s) 1 =
     Finite (8000 / (5 + 1 / 10 + sqrt 8000)) \<and>
   np_ge (snr_value stub_flux initial_state 0 ''H2'' (PlainMag 20) (quantity_of 10 u_s) 1) 7"
proof -
  let ?dit = "quantity_of 10 u_s"
  let ?f = "stub_flux ''H2'' (PlainMag 20) instrument observatory"
  have z: "unit_of (quantity_of 0 u_s) = u_s \<and> val (quantity_of 0 u_s) \<le> 0"
    by (simp add: quantity_of_def)
  have h1: "state_ok stub_flux initial_state" by (rule state_ok_initial)
  have h2: "fval (saturation_limit initial_state) = Finite 120000" by (rule initial_limit)
  have h3: "hashable (PlainMag 20)" by simp
  have h4: "''H2'' \<in> set bands" by (simp add: bands_def)
  have h5: "unit_of ?f = flux_unit" by (rule stub_flux_unit)
  note f = in_range_bounds[OF stub_flux_in_range[of "''H2''" "PlainMag 20" instrument observatory]]
  have h6: "0 \<le> val ?f" by (rule f(2))
  have h7: "val ?f \<le> 10 ^ 50" by (rule f(3))
  have h8: "unit_of ?dit = u_s" by (simp add: quantity_of_def)
  have h9: "1 / 10 ^ 9 \<le> val ?dit" by (simp add: quantity_of_def)
  have h10: "val ?dit \<le> 10 ^ 50" by (simp add: quantity_of_def)
  have h11: "val ?f * val telescope_size * val pixel_scale * val ?dit * val quantum_efficiency
               \<le> 120000"
    unfolding stub_flux_rate by (simp add: quantity_of_def quantum_efficiency_def)
  have h12: "(0::real) < 7" by simp
  note t0 = get_ndit_search[where flux = stub_flux and w = initial_state and self = 0
      and band = "''H2''" and snr = 7 and mag = "PlainMag 20" and dit = "quantity_of 0 u_s"
      and l = 120000]
  note t = get_ndit_search[where flux = stub_flux and w = initial_state and self = 0
      and band = "''H2''" and snr = 7 and mag = "PlainMag 20" and dit = ?dit and l = 120000]
  have a: "get_ndit stub_flux initial_state 0 ''H2'' 7 (PlainMag 20) (quantity_of 0 u_s) =
     Some (initial_state, Inl (ValueError [Lit ''DIT must be positive'']))"
    using t0 z by blast
  from t h1 h2 h3 h4 h5 h6 h7 h8 h9 h10 h11 h12 obtain n w' where n: "1 \<le> n"
    "get_ndit stub_flux initial_state 0 ''H2'' 7 (PlainMag 20) ?dit = Some (w', Inr n)"
    "\<forall>k. 1 \<le> k \<and> k < n \<longrightarrow>
        np_lt (snr_value stub_flux initial_state 0 ''H2'' (PlainMag 20) ?dit k) 7 \<and>
        val ?dit * real_of_int k < 10800"
    by blast
  have v1: "snr_value stub_flux initial_state 0 ''H2'' (PlainMag 20) ?dit 1 =
              Finite (8000 / (5 + 1 / 10 + sqrt 8000))"
    by (simp add: snr_value_def stub_snr_one_exposure)
  have ge: "np_ge (snr_value stub_flux initial_state 0 ''H2'' (PlainMag 20) ?dit 1) 7"
    unfolding v1 using stub_snr_above_7 by simp
  have "n = 1"
  proof (rule ccontr)
    assume "n \<noteq> 1"
    with n(1) have "1 \<le> (1::int) \<and> 1 < n" by simp
    with n(3) have "np_lt (snr_value stub_flux initial_state 0 ''H2'' (PlainMag 20) ?dit 1) 7"
      by blast
    with v1 stub_snr_above_7 show False by simp
  qed
  with n(2) have b: "\<exists>w'. get_ndit stub_flux initial_state 0 ''H2'' 7 (PlainMag 20) ?dit =
     Some (w', Inr 1)"
    by blast
  from z h1 h2 h3 h4 h5 h6 h7 h8 h9 h10 h11 h12 a b v1 ge show ?thesis by blast
qed

subsection \<open>C3: the saturation clamp\<close>

text \<open>
  Claim C3 says that the signal of one exposure that enters the ratio is never above the
  saturation limit, which the class body gives as 120000 electrons per pixel. The value the
  code clamps to is whatever \<^verbatim>\<open>self.saturation_limit\<close> holds at the call, and a saturated
  call rewrites it: after one call with two exposures on a fresh calculator, a call with
  three exposures computes its ratio from a signal of 240000 electrons per pixel and
  exposure, 720000 in all, and not from the 360000 that three exposures clamped at the
  limit of the detector give.
\<close>

theorem get_snr_clamp_above_detector_limit:
  "(let w1 = fst (get_snr bright_flux initial_state 0 ''H2'' (PlainMag (- 10)) (quantity_of 10 u_s) 2);
        r = snd (get_snr bright_flux w1 0 ''H2'' (PlainMag (- 10)) (quantity_of 10 u_s) 3)
    in val saturation_limit_initial = 120000 \<and>
       r = Inr (Finite (3 * 240000 / (15 + 3 / 10 + sqrt (3 * 240000)))) \<and>
       r \<noteq> Inr (Finite (3 * 120000 / (15 + 3 / 10 + sqrt (3 * 120000)))))"
proof -
  have three: "(1::int) \<le> 3" "(3::int) < 2 ^ 64" by simp_all
  have v: "val saturation_limit_initial = 120000"
    by (simp add: saturation_limit_initial_def quantity_of_def)
  have "(360000::real) / (153 / 10 + sqrt 360000) < 720000 / (153 / 10 + sqrt 720000)"
    by (rule ratio_const_strict_mono) simp_all
  then have "(720000::real) / (153 / 10 + sqrt 720000) \<noteq> 360000 / (153 / 10 + sqrt 360000)"
    by simp
  with bright_second_call[OF three, of 0] v show ?thesis
    by (simp add: Let_def)
qed

subsection \<open>C4: the search ends\<close>

text \<open>
  Claim C4. For every \<open>dit > 0\<close>, and every band, magnitude, target and state,
  \<^verbatim>\<open>get_ndit\<close> returns: the loop adds one to \<open>ndit\<close> in each iteration and stops as
  soon as \<open>ndit * dit\<close> reaches 3 hours (10800 s), so the number of iterations, which is the
  \<open>ndit\<close> it returns, is at most the ceiling of \<open>10800 / dit\<close>. This includes targets
  that are never reached (the witness asks for a signal-to-noise ratio of a million).
\<close>

theorem get_ndit_terminates:
  assumes "0 < val dit"
  shows "\<exists>w' r. get_ndit flux w self band snr mag dit = Some (w', r) \<and>
                (\<forall>n. r = Inr n \<longrightarrow> 0 \<le> n \<and> n \<le> \<lceil>10800 / val dit\<rceil>)"
proof (cases "unit_of dit = u_s")
  case False
  then show ?thesis by (simp add: get_ndit_def)
next
  case True
  have "val dit * real_of_int 0 < 10800" by simp
  from get_ndit_loop_terminates[OF True assms this]
  obtain w' r where
    "get_ndit_loop flux self band snr mag dit w False (Finite 0) 0 = Some (w', r)"
    "\<forall>n. r = Inr n \<longrightarrow> 0 \<le> n \<and> n \<le> \<lceil>10800 / val dit\<rceil>"
    by blast
  with True assms show ?thesis
    by (simp add: get_ndit_def qle_def quantity_of_def)
qed

theorem get_ndit_terminates_witness:
  "0 < val (quantity_of 10 u_s) \<and>
   (\<exists>w' r. get_ndit stub_flux initial_state 0 ''H2'' 1000000 (PlainMag 20) (quantity_of 10 u_s)
             = Some (w', r) \<and>
           (\<forall>n. r = Inr n \<longrightarrow> 0 \<le> n \<and> n \<le> 1080))"
proof -
  have h: "0 < val (quantity_of 10 u_s)" by (simp add: quantity_of_def)
  have c: "\<lceil>10800 / val (quantity_of 10 u_s)\<rceil> = 1080" by (simp add: quantity_of_def)
  show ?thesis
    using get_ndit_terminates[OF h, of stub_flux initial_state 0 "''H2''" 1000000 "PlainMag 20"] h
    unfolding c by blast
qed

subsection \<open>C5: monotonicity in the number of exposures\<close>




subsection \<open>C6: the photon rate and the band check\<close>

text \<open>
  Claim C6 says that \<^verbatim>\<open>photons_in_filter\<close> raises exactly for a band that is not
  supported, and then the \<^verbatim>\<open>ValueError\<close> that names the band, and returns a photon rate
  for every supported band. The docstring admits a magnitude that is a quantity
  (\<^verbatim>\<open>mag : float | u.Quantity\<close>), but the method is wrapped in \<^verbatim>\<open>@lru_cache()\<close>, which
  hashes its arguments first: for a magnitude tagged with a photometric system, such as
  \<^verbatim>\<open>20 * u.ABmag\<close>, the call raises a \<^verbatim>\<open>TypeError\<close>, for the supported band
  \<^verbatim>\<open>H2\<close> as for the unsupported \<^verbatim>\<open>A\<close>, and the body never runs.
\<close>

theorem photons_in_filter_rejects_tagged_magnitude:
  "''H2'' \<in> set bands \<and> ''A'' \<notin> set bands \<and>
   photons_in_filter stub_flux initial_state 0 ''H2'' (SystemMag 20 ''AB'') =
     (initial_state, Inl TypeError) \<and>
   photons_in_filter stub_flux initial_state 0 ''A'' (SystemMag 20 ''AB'') =
     (initial_state, Inl TypeError)"
  by (simp add: photons_in_filter_def bands_def)

subsection \<open>C7: the observing conditions\<close>

text \<open>
  Claim C7. Whenever \<^verbatim>\<open>initialize_observing_conditions\<close> raises, the state is the one
  before the call. For a \<^verbatim>\<open>seeing\<close> that is an angle, it raises exactly when
  \<^verbatim>\<open>moon_illumination\<close> is outside the interval from 0 to 1, with a \<^verbatim>\<open>ValueError\<close>
  that reports the value received; otherwise it overwrites the three fields of the instance
  with its arguments, which are then what the instance reads, and changes nothing else.
\<close>

theorem initialize_observing_conditions_contract:
  "(let r = initialize_observing_conditions w self seeing_arg moon_arg airmass_arg in
    (isl (snd r) \<longrightarrow> fst r = w) \<and>
    (unit_of seeing_arg = u_rad \<longrightarrow>
       (isl (snd r) \<longleftrightarrow> \<not> (0 \<le> moon_arg \<and> moon_arg \<le> 1)) \<and>
       (\<not> (0 \<le> moon_arg \<and> moon_arg \<le> 1) \<longrightarrow>
          snd r = Inl (ValueError [Lit ''moon_illumination must be between 0 and 1, but got '',
                                   Num moon_arg])) \<and>
       (0 \<le> moon_arg \<and> moon_arg \<le> 1 \<longrightarrow>
          r = (w\<lparr>instances := (instances w)
                   (self := \<lparr>inst_seeing = Some seeing_arg,
                             inst_moon_illumination = Some moon_arg,
                             inst_airmass = Some airmass_arg\<rparr>)\<rparr>, Inr ()) \<and>
          seeing (fst r) self = seeing_arg \<and>
          moon_illumination (fst r) self = moon_arg \<and>
          airmass (fst r) self = airmass_arg)))"
  by (simp add: initialize_observing_conditions_def Let_def instance_dict_overwritten
      seeing_def moon_illumination_def airmass_def)


theorem initialize_observing_conditions_contract_witness:
  "unit_of seeing_default = u_rad \<and> \<not> (0 \<le> (2::real) \<and> (2::real) \<le> 1) \<and>
   (0 \<le> (1 / 2 :: real) \<and> (1 / 2 :: real) \<le> 1) \<and>
   initialize_observing_conditions initial_state 0 seeing_default 2 (3 / 2) =
     (initial_state,
      Inl (ValueError [Lit ''moon_illumination must be between 0 and 1, but got '', Num 2])) \<and>
   initialize_observing_conditions initial_state 0 seeing_default (1 / 2) (3 / 2) =
     (initial_state\<lparr>instances := (instances initial_state)
         (0 := \<lparr>inst_seeing = Some seeing_default, inst_moon_illumination = Some (1 / 2),
                 inst_airmass = Some (3 / 2)\<rparr>)\<rparr>, Inr ()) \<and>
   moon_illumination
     (fst (initialize_observing_conditions initial_state 0 seeing_default (1 / 2) (3 / 2))) 0 = 1 / 2 \<and>
   airmass
     (fst (initialize_observing_conditions initial_state 0 seeing_default (1 / 2) (3 / 2))) 0 = 3 / 2"
proof -
  have h1: "unit_of seeing_default = u_rad" by (simp add: seeing_default_def quantity_of_def)
  have h2: "\<not> (0 \<le> (2::real) \<and> (2::real) \<le> 1)" by simp
  have h3: "0 \<le> (1 / 2 :: real) \<and> (1 / 2 :: real) \<le> 1" by simp
  note bad = initialize_observing_conditions_contract
    [where w = initial_state and self = 0 and seeing_arg = seeing_default and moon_arg = 2
       and airmass_arg = "3 / 2", unfolded Let_def]
  note good = initialize_observing_conditions_contract
    [where w = initial_state and self = 0 and seeing_arg = seeing_default and moon_arg = "1 / 2"
       and airmass_arg = "3 / 2", unfolded Let_def]
  have e: "isl (snd (initialize_observing_conditions initial_state 0 seeing_default 2 (3 / 2)))"
    using bad h1 h2 by blast
  have "fst (initialize_observing_conditions initial_state 0 seeing_default 2 (3 / 2)) = initial_state"
    using bad e by blast
  moreover have "snd (initialize_observing_conditions initial_state 0 seeing_default 2 (3 / 2)) =
      Inl (ValueError [Lit ''moon_illumination must be between 0 and 1, but got '', Num 2])"
    using bad h1 h2 by blast
  ultimately have a: "initialize_observing_conditions initial_state 0 seeing_default 2 (3 / 2) =
     (initial_state,
      Inl (ValueError [Lit ''moon_illumination must be between 0 and 1, but got '', Num 2]))"
    by (simp add: prod_eq_iff)
  have b: "initialize_observing_conditions initial_state 0 seeing_default (1 / 2) (3 / 2) =
     (initial_state\<lparr>instances := (instances initial_state)
         (0 := \<lparr>inst_seeing = Some seeing_default, inst_moon_illumination = Some (1 / 2),
                 inst_airmass = Some (3 / 2)\<rparr>)\<rparr>, Inr ())"
    using good h1 h3 by blast
  have c: "moon_illumination
     (fst (initialize_observing_conditions initial_state 0 seeing_default (1 / 2) (3 / 2))) 0 = 1 / 2"
    using good h1 h3 by blast
  have d: "airmass
     (fst (initialize_observing_conditions initial_state 0 seeing_default (1 / 2) (3 / 2))) 0 = 3 / 2"
    using good h1 h3 by blast
  from h1 h2 h3 a b c d show ?thesis by blast
qed

subsection \<open>C8: independence of earlier calls\<close>

text \<open>
  Claim C8 says that the result of \<^verbatim>\<open>get_snr\<close> does not depend on earlier calls. The
  same call made twice on a fresh calculator, for a target that saturates the detector and
  two exposures, returns two different numbers: the first call multiplies the object bound
  to \<^verbatim>\<open>ETC.saturation_limit\<close> by \<open>ndit\<close>, so the second call clamps at 240000 instead of
  120000.
\<close>

theorem get_snr_depends_on_history:
  "(let r1 = get_snr bright_flux initial_state 0 ''H2'' (PlainMag (- 10)) (quantity_of 10 u_s) 2;
        r2 = get_snr bright_flux (fst r1) 0 ''H2'' (PlainMag (- 10)) (quantity_of 10 u_s) 2
    in snd r1 = Inr (Finite (240000 / (10 + 1 / 5 + sqrt 240000))) \<and>
       snd r2 = Inr (Finite (480000 / (10 + 1 / 5 + sqrt 480000))) \<and>
       snd r1 \<noteq> snd r2)"
proof -
  let ?dit = "quantity_of 10 u_s"
  let ?w1 = "fst (get_snr bright_flux initial_state 0 ''H2'' (PlainMag (- 10)) ?dit 2)"
  have two: "(1::int) \<le> 2" "(2::int) < 2 ^ 64" by simp_all
  have r1: "snd (get_snr bright_flux initial_state 0 ''H2'' (PlainMag (- 10)) ?dit 2) =
              Inr (Finite (240000 / (10 + 1 / 5 + sqrt 240000)))"
    by (rule bright_first_call(1))
  have r2: "snd (get_snr bright_flux ?w1 0 ''H2'' (PlainMag (- 10)) ?dit 2) =
              Inr (Finite (480000 / (10 + 1 / 5 + sqrt 480000)))"
    using bright_second_call[OF two, of 0] by simp
  have "(240000::real) / (10 + 1 / 5 + sqrt 240000) < 480000 / (10 + 1 / 5 + sqrt 480000)"
    by (rule ratio_const_strict_mono) simp_all
  then have "(240000::real) / (10 + 1 / 5 + sqrt 240000) \<noteq> 480000 / (10 + 1 / 5 + sqrt 480000)"
    by simp
  with r1 r2 show ?thesis
    by (simp only: Let_def sum.inject npfloat.inject simp_thms)
qed

subsection \<open>C9: the noise is positive and the result finite\<close>

text \<open>
  Claim C9 says that for every \<open>dit > 0\<close> and \<open>ndit \<ge> 1\<close> \<^verbatim>\<open>get_snr\<close> returns a finite
  float that is positive whenever the accumulated signal is. For the faint target and a
  \<open>dit\<close> of \<open>10\<^sup>3\<^sup>0\<^sup>0\<close> s, \<open>10\<^sup>1\<^sup>0\<close> exposures accumulate a signal of \<open>8 \<times> 10\<^sup>1\<^sup>2\<close> electrons
  per pixel, but the noise overflows to infinity and the ratio returned is 0. For
  \<open>ndit = 2\<^sup>6\<^sup>5\<close>, and for a magnitude tagged with a photometric system, the call returns
  no float at all: it raises a \<^verbatim>\<open>TypeError\<close>.
\<close>

theorem get_snr_zero_on_overflow:
  "np_mul
     (np_mul
        (np_mul
           (np_mul (np_mul (Finite (val (faint_flux ''Ks'' (PlainMag 20) instrument observatory)))
                      (Finite (val telescope_size))) (Finite (val pixel_scale)))
           (Finite (10 ^ 300))) (Finite (val quantum_efficiency)))
     (Finite (10 ^ 10)) = Finite (8 * 10 ^ 12) \<and>
   snd (get_snr faint_flux initial_state 0 ''Ks'' (PlainMag 20) (quantity_of (10 ^ 300) u_s)
          (10 ^ 10)) = Inr (Finite 0) \<and>
   snd (get_snr stub_flux initial_state 0 ''Ks'' (PlainMag 20) (quantity_of 10 u_s) (2 ^ 65)) =
     Inl TypeError \<and>
   snd (get_snr stub_flux initial_state 0 ''Ks'' (SystemMag 20 ''AB'') (quantity_of 10 u_s) 10) =
     Inl TypeError"
proof -
  have band: "''Ks'' \<in> set bands" by (simp add: bands_def)
  have n: "(10::int) ^ 9 \<le> 10 ^ 10" "(10::int) ^ 10 < 2 ^ 64" "(0::int) \<le> 10 ^ 10" by simp_all
  have c: "cache_ok stub_flux initial_state"
    and su: "funit (saturation_limit initial_state) = electrons_per_pixel"
    using state_ok_initial[of stub_flux] by (simp_all add: state_ok_def)
  have "np_mul (Finite 800) (Finite (real_of_int (10 ^ 10))) = Finite (800 * real_of_int (10 ^ 10))"
    by (rule faint_signal(2)[OF n(3) n(2)])
  then have "np_mul (Finite 800) (Finite (10 ^ 10)) = Finite (8 * 10 ^ 12)"
    by (simp del: np_mul.simps)
  then have s: "np_mul
     (np_mul
        (np_mul
           (np_mul (np_mul (Finite (val (faint_flux ''Ks'' (PlainMag 20) instrument observatory)))
                      (Finite (val telescope_size))) (Finite (val pixel_scale)))
           (Finite (10 ^ 300))) (Finite (val quantum_efficiency)))
     (Finite (10 ^ 10)) = Finite (8 * 10 ^ 12)"
    by (simp only: faint_flux_photons faint_signal(1)[OF n(3) n(2)])
  have t1: "snd (get_snr stub_flux initial_state 0 ''Ks'' (PlainMag 20) (quantity_of 10 u_s) (2 ^ 65)) =
     Inl TypeError"
    by (rule get_snr_not_int_fits[OF c _ _ stub_flux_unit _ su])
       (simp_all add: bands_def quantity_of_def int_fits_def)
  have t2: "snd (get_snr stub_flux initial_state 0 ''Ks'' (SystemMag 20 ''AB'') (quantity_of 10 u_s) 10) =
     Inl TypeError"
    by (subst get_snr_unhashable) (simp_all add: quantity_of_def)
  from s faint_snr_overflow[OF band n(1,2)] t1 t2
  show ?thesis by blast
qed

text \<open>
  Claim C9, amended to a magnitude given as a float, a flux and a \<open>dit\<close> between
  \<open>10\<^sup>-\<^sup>5\<^sup>0\<close> and \<open>10\<^sup>5\<^sup>0\<close>, and \<open>1 \<le> ndit < 2\<^sup>6\<^sup>4\<close>. For a supported band the noise in
  \<^verbatim>\<open>get_snr\<close> is strictly positive, being at least the readout term \<open>5 * ndit\<close>; the
  division is therefore defined, the result is a finite number, and it is positive, as the
  accumulated signal is.
\<close>

theorem get_snr_positive:
  assumes "state_ok flux w"
    and "fval (saturation_limit w) = Finite l"
    and "hashable mag"
    and "band \<in> set bands"
    and "unit_of (flux band mag instrument observatory) = flux_unit"
    and "in_range (val (flux band mag instrument observatory))"
    and "unit_of dit = u_s"
    and "in_range (val dit)"
    and "1 \<le> ndit"
    and "ndit < 2 ^ 64"
  shows
    "(let per_exposure = val (flux band mag instrument observatory) * val telescope_size
                           * val pixel_scale * val dit * val quantum_efficiency;
          signal = (if per_exposure > l then l else per_exposure) * real_of_int ndit;
          noise = val readout_noise * real_of_int ndit
                    + val dark_noise * (val dit * real_of_int ndit) + sqrt signal
      in 0 < 5 * real_of_int ndit \<and> 5 * real_of_int ndit \<le> noise \<and> 0 < signal \<and>
         snd (get_snr flux w self band mag dit ndit) = Inr (Finite (signal / noise)) \<and>
         0 < signal / noise)"
proof -
  let ?s1 = "val (flux band mag instrument observatory) * val telescope_size * val pixel_scale
               * val dit * val quantum_efficiency"
  let ?S = "min ?s1 l * real_of_int ndit"
  let ?noise = "val readout_noise * real_of_int ndit
                  + val dark_noise * (val dit * real_of_int ndit) + sqrt ?S"
  note f = in_range_bounds[OF assms(6)]
  note d = in_range_bounds[OF assms(8)]
  note fin1 = get_snr_finite(1)[OF assms(1-5) f(2,3) assms(7) d(1,3) assms(9,10), of self]
  note fin3 = get_snr_finite(3)[OF assms(1-5) f(2,3) assms(7) d(1,3) assms(9,10)]
  have n: "0 < 5 * real_of_int ndit" using assms(9) by simp
  have L: "0 < l" by (rule state_ok_limit_pos[OF assms(1,2)])
  have "0 < ?s1" using f(1) d(1) by (intro per_exposure_pos)
  then have "0 < min ?s1 l" using L by simp
  then have S: "0 < ?S" using assms(9) by (intro mult_pos_pos) simp_all
  have noise: "0 < ?noise" using n fin3 by linarith
  have r: "0 < ?S / ?noise" using S noise by simp
  have eq: "(if ?s1 > l then l else ?s1) = min ?s1 l"
    by (simp add: min_def)
  show ?thesis
    unfolding Let_def eq using n fin1 fin3 S r by blast
qed

theorem get_snr_positive_witness:
  "state_ok stub_flux initial_state \<and> fval (saturation_limit initial_state) = Finite 120000 \<and>
   hashable (PlainMag 20) \<and> ''J'' \<in> set bands \<and>
   unit_of (stub_flux ''J'' (PlainMag 20) instrument observatory) = flux_unit \<and>
   in_range (val (stub_flux ''J'' (PlainMag 20) instrument observatory)) \<and>
   unit_of (quantity_of 10 u_s) = u_s \<and> in_range (val (quantity_of 10 u_s)) \<and>
   (1::int) \<le> 10 \<and> (10::int) < 2 ^ 64 \<and>
   snd (get_snr stub_flux initial_state 0 ''J'' (PlainMag 20) (quantity_of 10 u_s) 10) =
     Inr (Finite (80000 / (50 + 1 + sqrt 80000))) \<and>
   0 < 80000 / (50 + 1 + sqrt 80000)"
proof -
  have h1: "state_ok stub_flux initial_state" by (rule state_ok_initial)
  have h2: "fval (saturation_limit initial_state) = Finite 120000" by (rule initial_limit)
  have h3: "hashable (PlainMag 20)" by simp
  have h4: "''J'' \<in> set bands" by (simp add: bands_def)
  have h5: "unit_of (stub_flux ''J'' (PlainMag 20) instrument observatory) = flux_unit"
    by (rule stub_flux_unit)
  have h6: "in_range (val (stub_flux ''J'' (PlainMag 20) instrument observatory))"
    by (rule stub_flux_in_range)
  have h7: "unit_of (quantity_of 10 u_s) = u_s" by (simp add: quantity_of_def)
  have h8: "in_range (val (quantity_of 10 u_s))" by (simp add: in_range_def quantity_of_def)
  have h9: "(1::int) \<le> 10" by simp
  have h10: "(10::int) < 2 ^ 64" by simp
  have "snd (get_snr stub_flux initial_state 0 ''J'' (PlainMag 20) (quantity_of 10 u_s) 10) =
     Inr (Finite (80000 / (50 + 1 + sqrt 80000))) \<and>
   0 < 80000 / (50 + 1 + sqrt 80000)"
    using get_snr_positive[OF h1 h2 h3 h4 h5 h6 h7 h8 h9 h10, where self = 0]
    unfolding Let_def stub_flux_rate
    by (simp add: quantity_of_def quantum_efficiency_def readout_noise_def dark_noise_def)
  with h1 h2 h3 h4 h5 h6 h7 h8 h9 h10 show ?thesis by blast
qed

subsection \<open>C10: what the methods change\<close>

text \<open>
  Claim C10 says that \<^verbatim>\<open>get_snr\<close> leaves the instrument constants unchanged, and that a
  call on one instance does not change what another instance reads. A call of
  \<^verbatim>\<open>get_snr\<close> on instance 0 for a target that saturates the detector, with two exposures,
  leaves the class attribute \<^verbatim>\<open>saturation_limit\<close> at 240000 instead of 120000, and the
  result that instance 1 computes for one exposure changes with it.
\<close>

theorem get_snr_overwrites_saturation_limit:
  "(let w1 = fst (get_snr bright_flux initial_state 0 ''H2'' (PlainMag (- 10)) (quantity_of 10 u_s) 2)
    in saturation_limit initial_state = of_quantity (quantity_of 120000 electrons_per_pixel) \<and>
       saturation_limit w1 = of_quantity (quantity_of 240000 electrons_per_pixel) \<and>
       snd (get_snr bright_flux initial_state 1 ''H2'' (PlainMag (- 10)) (quantity_of 10 u_s) 1) =
         Inr (Finite (120000 / (5 + 1 / 10 + sqrt 120000))) \<and>
       snd (get_snr bright_flux w1 1 ''H2'' (PlainMag (- 10)) (quantity_of 10 u_s) 1) =
         Inr (Finite (240000 / (5 + 1 / 10 + sqrt 240000))))"
proof -
  let ?dit = "quantity_of 10 u_s"
  let ?w1 = "fst (get_snr bright_flux initial_state 0 ''H2'' (PlainMag (- 10)) ?dit 2)"
  have ok0: "state_ok bright_flux initial_state" by (rule state_ok_initial)
  have h: "hashable (PlainMag (- 10))" by simp
  have band: "''H2'' \<in> set bands" by (simp add: bands_def)
  have du: "unit_of ?dit = u_s" and d0: "0 < val ?dit" and d1: "val ?dit \<le> 10 ^ 50"
    by (simp_all add: quantity_of_def)
  have one: "(1::int) \<le> 1" "(1::int) < 2 ^ 64" by simp_all
  have s0: "saturation_limit initial_state = of_quantity (quantity_of 120000 electrons_per_pixel)"
    by (simp add: initial_state_def saturation_limit_initial_def electrons_per_pixel_def)
  have s1: "saturation_limit ?w1 = of_quantity (quantity_of 240000 electrons_per_pixel)"
    by (rule bright_first_call(2))
  have sat0: "120000 < val (bright_flux ''H2'' (PlainMag (- 10)) instrument observatory)
              * val telescope_size * val pixel_scale * val ?dit * val quantum_efficiency"
    using bright_flux_signal[of "''H2''" "PlainMag (- 10)" instrument observatory]
    by linarith
  have before: "snd (get_snr bright_flux initial_state 1 ''H2'' (PlainMag (- 10)) ?dit 1) =
         Inr (Finite (120000 / (5 + 1 / 10 + sqrt 120000)))"
    using get_snr_saturated(1)[OF ok0 initial_limit h band bright_flux_unit bright_flux_bounds
      du d0 d1 one sat0, where self = 1]
    by (simp add: quantity_of_def)
  have after: "snd (get_snr bright_flux ?w1 1 ''H2'' (PlainMag (- 10)) ?dit 1) =
         Inr (Finite (240000 / (5 + 1 / 10 + sqrt 240000)))"
    using bright_second_call[OF one, of 1] by simp
  from s0 s1 before after show ?thesis
    by (simp only: Let_def simp_thms)
qed

end
